theory Spec2Isabelle
  imports Complex_Main "HOL-Library.Word"
begin

section \<open>Text, bytes and hexadecimal\<close>

text \<open>
  The handler of \<^verbatim>\<open>src/pages/api/subscribe.js\<close> works on JavaScript strings and Node
  buffers. A buffer is a list of 8-bit words. Text is a \<^typ>\<open>string\<close> whose characters
  are the code units 0 to 255 of the JavaScript string (Basic Latin and Latin-1
  Supplement); code units from 256 on are outside this type. On these characters
  \<^verbatim>\<open>toLowerCase\<close>, \<^verbatim>\<open>trim\<close> and the class \<^verbatim>\<open>\s\<close> are modelled as ECMAScript
  defines them.
\<close>

type_synonym byte = "8 word"

text \<open>\<^verbatim>\<open>toLowerCase\<close> on one character: the capitals A to Z, and U+00C0 to U+00DE
  but for the multiplication sign U+00D7, have their small letter 32 places on;
  every other character below 256 is left as it is.\<close>

definition toLowerCase_char :: "char \<Rightarrow> char" where
  "toLowerCase_char c =
     (case map_of
        (zip (''ABCDEFGHIJKLMNOPQRSTUVWXYZ'' @
          [CHR 0xC0, CHR 0xC1, CHR 0xC2, CHR 0xC3, CHR 0xC4, CHR 0xC5, CHR 0xC6, CHR 0xC7,
           CHR 0xC8, CHR 0xC9, CHR 0xCA, CHR 0xCB, CHR 0xCC, CHR 0xCD, CHR 0xCE, CHR 0xCF,
           CHR 0xD0, CHR 0xD1, CHR 0xD2, CHR 0xD3, CHR 0xD4, CHR 0xD5, CHR 0xD6, CHR 0xD8,
           CHR 0xD9, CHR 0xDA, CHR 0xDB, CHR 0xDC, CHR 0xDD, CHR 0xDE])
             (''abcdefghijklmnopqrstuvwxyz'' @
          [CHR 0xE0, CHR 0xE1, CHR 0xE2, CHR 0xE3, CHR 0xE4, CHR 0xE5, CHR 0xE6, CHR 0xE7,
           CHR 0xE8, CHR 0xE9, CHR 0xEA, CHR 0xEB, CHR 0xEC, CHR 0xED, CHR 0xEE, CHR 0xEF,
           CHR 0xF0, CHR 0xF1, CHR 0xF2, CHR 0xF3, CHR 0xF4, CHR 0xF5, CHR 0xF6, CHR 0xF8,
           CHR 0xF9, CHR 0xFA, CHR 0xFB, CHR 0xFC, CHR 0xFD, CHR 0xFE])) c of
        Some d \<Rightarrow> d
      | None \<Rightarrow> c)"

text \<open>\<^verbatim>\<open>toUpperCase\<close> on one character, the other way round. The module applies it to
  hexadecimal text only. (The capitals of U+00B5, U+00DF and U+00FF are not single
  code units below 256; these three are left as they are.)\<close>

definition toUpperCase_char :: "char \<Rightarrow> char" where
  "toUpperCase_char c =
     (case map_of
        (zip (''abcdefghijklmnopqrstuvwxyz'' @
          [CHR 0xE0, CHR 0xE1, CHR 0xE2, CHR 0xE3, CHR 0xE4, CHR 0xE5, CHR 0xE6, CHR 0xE7,
           CHR 0xE8, CHR 0xE9, CHR 0xEA, CHR 0xEB, CHR 0xEC, CHR 0xED, CHR 0xEE, CHR 0xEF,
           CHR 0xF0, CHR 0xF1, CHR 0xF2, CHR 0xF3, CHR 0xF4, CHR 0xF5, CHR 0xF6, CHR 0xF8,
           CHR 0xF9, CHR 0xFA, CHR 0xFB, CHR 0xFC, CHR 0xFD, CHR 0xFE])
             (''ABCDEFGHIJKLMNOPQRSTUVWXYZ'' @
          [CHR 0xC0, CHR 0xC1, CHR 0xC2, CHR 0xC3, CHR 0xC4, CHR 0xC5, CHR 0xC6, CHR 0xC7,
           CHR 0xC8, CHR 0xC9, CHR 0xCA, CHR 0xCB, CHR 0xCC, CHR 0xCD, CHR 0xCE, CHR 0xCF,
           CHR 0xD0, CHR 0xD1, CHR 0xD2, CHR 0xD3, CHR 0xD4, CHR 0xD5, CHR 0xD6, CHR 0xD8,
           CHR 0xD9, CHR 0xDA, CHR 0xDB, CHR 0xDC, CHR 0xDD, CHR 0xDE])) c of
        Some d \<Rightarrow> d
      | None \<Rightarrow> c)"

definition toLowerCase :: "string \<Rightarrow> string" where
  "toLowerCase s = map toLowerCase_char s"

definition toUpperCase :: "string \<Rightarrow> string" where
  "toUpperCase s = map toUpperCase_char s"

text \<open>White space of \<^verbatim>\<open>trim()\<close> and of \<^verbatim>\<open>\s\<close>: tab, line feed, vertical tab, form
  feed, carriage return, the blank and the no-break space U+00A0.\<close>

definition is_space :: "char \<Rightarrow> bool" where
  "is_space c =
     (c \<in> set [CHR 0x09, CHR 0x0A, CHR 0x0B, CHR 0x0C, CHR 0x0D, CHR '' '', CHR 0xA0])"

definition trim :: "string \<Rightarrow> string" where
  "trim s = rev (dropWhile is_space (rev (dropWhile is_space s)))"

text \<open>\<^verbatim>\<open>haystack.includes(needle)\<close>.\<close>

fun str_includes :: "string \<Rightarrow> string \<Rightarrow> bool" where
  "str_includes [] needle = (needle = [])"
| "str_includes (c # cs) needle = (take (length needle) (c # cs) = needle \<or> str_includes cs needle)"

text \<open>\<^verbatim>\<open>parts.join(sep)\<close>.\<close>

fun join :: "string \<Rightarrow> string list \<Rightarrow> string" where
  "join sep [] = []"
| "join sep [x] = x"
| "join sep (x # y # ys) = x @ sep @ join sep (y # ys)"

text \<open>\<^verbatim>\<open>buf.toString('hex')\<close> and \<^verbatim>\<open>digest('hex')\<close>: two lower-case digits per byte.\<close>

definition hex_digit :: "nat \<Rightarrow> char" where
  "hex_digit n = ''0123456789abcdef'' ! n"

definition hex_encode :: "byte list \<Rightarrow> string" where
  "hex_encode bs = concat (map (\<lambda>b. [hex_digit (unat b div 16), hex_digit (unat b mod 16)]) bs)"

text \<open>\<^verbatim>\<open>Buffer.from(s, 'hex')\<close>: pairs of hexadecimal digits of either case are decoded
  from the left; decoding stops without an error at the first pair that is not two
  hexadecimal digits, and a single trailing character is dropped.\<close>

definition unhex :: "char \<Rightarrow> nat option" where
  "unhex c = map_of (zip ''0123456789abcdefABCDEF'' ([0..<16] @ [10..<16])) c"

fun hex_decode :: "string \<Rightarrow> byte list" where
  "hex_decode (a # b # rest) =
     (case unhex a of
        None \<Rightarrow> []
      | Some h \<Rightarrow>
          (case unhex b of
             None \<Rightarrow> []
           | Some l \<Rightarrow> of_nat (16 * h + l) # hex_decode rest))"
| "hex_decode _ = []"

section \<open>Requests and the proxy signature\<close>

text \<open>
  A JavaScript \<^verbatim>\<open>Error\<close> with its message.
\<close>

datatype error = Error string

text \<open>
  The request as the handler reads it. \<open>url_parts\<close> is the outcome of
  \<^verbatim>\<open>new URL(`https://${req.headers.host}${req.url}`)\<close>, the WHATWG parser of the
  platform: \<open>None\<close> when the constructor throws, otherwise the path name and the
  decoded query parameters in their order. \<open>body_email\<close> is \<^verbatim>\<open>req.body?.email\<close>:
  \<open>None\<close> when the body or the field is missing or falsy, otherwise the text that
  \<^verbatim>\<open>String\<close> makes of the field.
\<close>

record request =
  http_method :: string
  url_parts :: "(string \<times> (string \<times> string) list) option"
  body_email :: "string option"

text \<open>
  What the module takes from its surroundings to verify a signature: the environment
  variable \<^verbatim>\<open>APP_PROXY_SIGNING_SECRET\<close> (\<open>None\<close> when unset, where
  \<^verbatim>\<open>crypto.createHmac\<close> throws) and Node's HMAC-SHA256, from key and message to the
  digest bytes.
\<close>

record runtime =
  signing_secret :: "string option"
  hmac_sha256 :: "string \<Rightarrow> string \<Rightarrow> byte list"

text \<open>\<^verbatim>\<open>url.searchParams.toString()\<close>: the application/x-www-form-urlencoded serializer.
  Letters, digits and \<^verbatim>\<open>*-._\<close> stay, the blank becomes \<^verbatim>\<open>+\<close>, every other character
  is percent-encoded byte by byte in UTF-8, with upper-case digits: one byte below 128,
  two bytes from 128 to 255.\<close>

definition form_safe :: "char \<Rightarrow> bool" where
  "form_safe c =
     (c \<in> set ''ABCDEFGHIJKLMNOPQRSTUVWXYZabcdefghijklmnopqrstuvwxyz0123456789*-._'')"

definition percent_byte :: "nat \<Rightarrow> string" where
  "percent_byte n = CHR ''%'' # toUpperCase [hex_digit (n div 16), hex_digit (n mod 16)]"

definition form_encode_char :: "char \<Rightarrow> string" where
  "form_encode_char c =
     (if c = CHR '' '' then ''+''
      else if form_safe c then [c]
      else if (of_char c :: nat) < 128 then percent_byte (of_char c)
      else percent_byte (192 + of_char c div 64) @ percent_byte (128 + of_char c mod 64))"

definition form_encode :: "string \<Rightarrow> string" where
  "form_encode s = concat (map form_encode_char s)"

definition searchParams_toString :: "(string \<times> string) list \<Rightarrow> string" where
  "searchParams_toString ps = join ''&'' (map (\<lambda>(k, v). form_encode k @ ''='' @ form_encode v) ps)"

text \<open>\<^verbatim>\<open>url.searchParams.delete(name)\<close> removes every pair of that name.\<close>

definition searchParams_delete :: "string \<Rightarrow> (string \<times> string) list \<Rightarrow> (string \<times> string) list" where
  "searchParams_delete name ps = filter (\<lambda>(k, v). k \<noteq> name) ps"

text \<open>The string that is signed: \<^verbatim>\<open>url.pathname\<close>, then \<^verbatim>\<open>?\<close> and the serialized
  parameters when there are any.\<close>

definition signature_base :: "string \<Rightarrow> (string \<times> string) list \<Rightarrow> string" where
  "signature_base pathname ps =
     (let qs = searchParams_toString (searchParams_delete ''signature'' ps)
      in pathname @ (if qs \<noteq> [] then ''?'' @ qs else []))"

text \<open>\<^verbatim>\<open>crypto.timingSafeEqual\<close> throws a RangeError on buffers of different lengths.\<close>

definition timingSafeEqual :: "byte list \<Rightarrow> byte list \<Rightarrow> error + bool" where
  "timingSafeEqual a b =
     (if length a \<noteq> length b then Inl (Error ''Input buffers must have the same byte length'')
      else Inr (a = b))"

text \<open>\<^verbatim>\<open>verifyProxySignature\<close>. Every throw inside the \<^verbatim>\<open>try\<close> is the \<^verbatim>\<open>false\<close>
  of the \<^verbatim>\<open>catch\<close>. \<^verbatim>\<open>searchParams.get\<close> reads the first parameter of that name.\<close>

definition verifyProxySignature :: "runtime \<Rightarrow> request \<Rightarrow> bool" where
  "verifyProxySignature rt req =
     (case url_parts req of
        None \<Rightarrow> False
      | Some (pathname, ps) \<Rightarrow>
          (case map_of ps ''signature'' of
             None \<Rightarrow> False
           | Some signature \<Rightarrow>
               if signature = [] then False
               else
                 (case signing_secret rt of
                    None \<Rightarrow> False
                  | Some key \<Rightarrow>
                      (let expected = hex_encode (hmac_sha256 rt key (signature_base pathname ps))
                       in case timingSafeEqual (hex_decode signature) (hex_decode expected) of
                            Inl e \<Rightarrow> False
                          | Inr b \<Rightarrow> b))))"

section \<open>The commerce platform, the mail transport and the process\<close>

text \<open>
  The store of the commerce platform is not code of this repository. It is modelled as
  far as the handler observes it: customers with the value of their metafield
  \<^verbatim>\<open>welcome.code\<close>, orders with their fulfillment status, and the discounts created.
  A discount that the platform creates is kept as the input it was asked for, and is
  reported back under the code of that input.
\<close>

record customer =
  customer_id :: nat
  customer_email :: string
  welcome_code :: "string option"

record order =
  order_id :: nat
  order_email :: string
  fulfillment_status :: string

text \<open>The object \<^verbatim>\<open>input\<close> of \<^verbatim>\<open>createOneTimeTenPercent\<close>, key by key. The object
  has no key \<^verbatim>\<open>endsAt\<close>: the field is \<open>None\<close>. \<^verbatim>\<open>customerSelection: { all }\<close>,
  \<^verbatim>\<open>customerGets: { value: { percentage }, items: { all } }\<close>.\<close>

record discount_input =
  title :: string
  startsAt :: nat
  endsAt :: "nat option"
  usageLimit :: nat
  appliesOncePerCustomer :: bool
  customerSelection_all :: bool
  percentage :: rat
  items_all :: bool
  code :: string

record metafield_input =
  mf_ownerId :: nat
  mf_namespace :: string
  mf_key :: string
  mf_type :: string
  mf_value :: string

record mail =
  mail_to :: string
  mail_subject :: string
  mail_code :: string

text \<open>A search string of the platform, \<^verbatim>\<open>field:value\<close> terms joined by AND and OR.\<close>

datatype search = Field_is string string | Conj search search | Disj search search

text \<open>The five GraphQL documents the module sends, with their variables, and what
  \<^verbatim>\<open>shopifyGQL\<close> returns for each (\<^verbatim>\<open>data.data\<close>): the edges of a query, or the
  payload of a mutation with the messages of its \<^verbatim>\<open>userErrors\<close>.\<close>

datatype gql_request =
    Orders_first search
  | Customers_first search
  | CustomerCreate string
  | DiscountCodeBasicCreate discount_input
  | MetafieldsSet "metafield_input list"

datatype gql_data =
    Orders_data "nat list"
  | Customers_data "customer list"
  | CustomerCreate_data "nat option" "string list"
  | DiscountCodeBasicCreate_data "string option" "string list"
  | MetafieldsSet_data "string list"

text \<open>How the remote side treats one call. \<open>Answer errs\<close>: it answers; a mutation's
  payload carries the user errors \<open>errs\<close> and, when there are some, changes nothing (a
  query has no user errors). \<open>Failure msg\<close>: the HTTP status is not ok or the answer has
  top-level \<^verbatim>\<open>errors\<close>, or the mail transport rejects; \<open>msg\<close> is the text of the
  error thrown.\<close>

datatype outcome = Answer "string list" | Failure string

datatype call = Gql gql_request | SendMail string string | RandomBytes nat

text \<open>
  Everything outside the handler: the store, the mails delivered, the outcome of the
  k-th remote call (\<open>replies\<close>, \<open>served\<close> calls so far), the bytes of
  \<^verbatim>\<open>crypto.randomBytes\<close> (\<open>entropy\<close>, \<open>drawn\<close> bytes so far), the clock, the calls
  made to collaborators in their order, and what \<^verbatim>\<open>console.error\<close> printed.
\<close>

record world =
  customers :: "customer list"
  orders :: "order list"
  discounts :: "discount_input list"
  next_customer_id :: nat
  outbox :: "mail list"
  replies :: "nat \<Rightarrow> outcome"
  served :: nat
  entropy :: "nat \<Rightarrow> byte"
  drawn :: nat
  clock :: nat
  calls :: "call list"
  console :: "error list"

fun search_holds :: "(string \<Rightarrow> string option) \<Rightarrow> search \<Rightarrow> bool" where
  "search_holds f (Field_is k v) = (f k = Some v)"
| "search_holds f (Conj a b) = (search_holds f a \<and> search_holds f b)"
| "search_holds f (Disj a b) = (search_holds f a \<or> search_holds f b)"

definition order_field :: "order \<Rightarrow> string \<Rightarrow> string option" where
  "order_field ord k =
     (if k = ''email'' then Some (order_email ord)
      else if k = ''fulfillment_status'' then Some (fulfillment_status ord)
      else None)"

definition customer_field :: "customer \<Rightarrow> string \<Rightarrow> string option" where
  "customer_field c k = (if k = ''email'' then Some (customer_email c) else None)"

definition set_metafield :: "metafield_input \<Rightarrow> customer \<Rightarrow> customer" where
  "set_metafield m c =
     (if customer_id c = mf_ownerId m \<and> mf_namespace m = ''welcome'' \<and> mf_key m = ''code''
      then c\<lparr>welcome_code := Some (mf_value m)\<rparr>
      else c)"

fun platform :: "gql_request \<Rightarrow> string list \<Rightarrow> world \<Rightarrow> gql_data \<times> world" where
  "platform (Orders_first q) errs w =
     (Orders_data (map order_id (take 1 (filter (\<lambda>ord. search_holds (order_field ord) q) (orders w)))), w)"
| "platform (Customers_first q) errs w =
     (Customers_data (take 1 (filter (\<lambda>c. search_holds (customer_field c) q) (customers w))), w)"
| "platform (CustomerCreate email) errs w =
     (if errs \<noteq> [] then (CustomerCreate_data None errs, w)
      else (CustomerCreate_data (Some (next_customer_id w)) [],
            w\<lparr>customers := customers w @
                 [\<lparr>customer_id = next_customer_id w, customer_email = email, welcome_code = None\<rparr>],
              next_customer_id := Suc (next_customer_id w)\<rparr>))"
| "platform (DiscountCodeBasicCreate input) errs w =
     (if errs \<noteq> [] then (DiscountCodeBasicCreate_data None errs, w)
      else (DiscountCodeBasicCreate_data (Some (code input)) [],
            w\<lparr>discounts := discounts w @ [input]\<rparr>))"
| "platform (MetafieldsSet ms) errs w =
     (if errs \<noteq> [] then (MetafieldsSet_data errs, w)
      else (MetafieldsSet_data [],
            w\<lparr>customers := map (\<lambda>c. foldl (\<lambda>c m. set_metafield m c) c ms) (customers w)\<rparr>))"

definition next_reply :: "world \<Rightarrow> outcome \<times> world" where
  "next_reply w = (replies w (served w), w\<lparr>served := Suc (served w)\<rparr>)"

section \<open>The module's functions\<close>

text \<open>A function that awaits a collaborator returns its result or the error thrown,
  and the world after it. \<open>await m f\<close> runs \<open>f\<close> on the result of \<open>m\<close>; an error of
  \<open>m\<close> propagates, as an exception does through \<^verbatim>\<open>await\<close>.\<close>

definition await ::
  "(world \<Rightarrow> (error + 'a) \<times> world) \<Rightarrow> ('a \<Rightarrow> world \<Rightarrow> (error + 'b) \<times> world) \<Rightarrow>
   world \<Rightarrow> (error + 'b) \<times> world" where
  "await m f w = (case m w of (Inl e, w1) \<Rightarrow> (Inl e, w1) | (Inr x, w1) \<Rightarrow> f x w1)"

text \<open>A property read from \<^verbatim>\<open>undefined\<close>: the answer has not the shape of the query.\<close>

definition type_error :: error where
  "type_error = Error ''TypeError''"

definition shopifyGQL :: "gql_request \<Rightarrow> world \<Rightarrow> (error + gql_data) \<times> world" where
  "shopifyGQL rq w =
     (case next_reply (w\<lparr>calls := calls w @ [Gql rq]\<rparr>) of
        (Failure msg, w1) \<Rightarrow> (Inl (Error msg), w1)
      | (Answer errs, w1) \<Rightarrow> (case platform rq errs w1 of (d, w2) \<Rightarrow> (Inr d, w2)))"

definition orders_search :: "string \<Rightarrow> search" where
  "orders_search email =
     Conj (Field_is ''email'' email)
          (Disj (Field_is ''fulfillment_status'' ''unfulfilled'')
                (Field_is ''fulfillment_status'' ''fulfilled''))"

definition emailHasAnyOrders :: "string \<Rightarrow> world \<Rightarrow> (error + bool) \<times> world" where
  "emailHasAnyOrders email =
     await (shopifyGQL (Orders_first (orders_search email)))
       (\<lambda>data w. case data of
                   Orders_data edges \<Rightarrow> (Inr (length edges > 0), w)
                 | _ \<Rightarrow> (Inl type_error, w))"

definition randomBytes :: "nat \<Rightarrow> world \<Rightarrow> byte list \<times> world" where
  "randomBytes n w =
     (map (\<lambda>i. entropy w (drawn w + i)) [0..<n],
      w\<lparr>drawn := drawn w + n, calls := calls w @ [RandomBytes n]\<rparr>)"

definition makeCode :: "world \<Rightarrow> string \<times> world" where
  "makeCode w =
     (case randomBytes 3 w of (bs, w1) \<Rightarrow> (''WELCOME-'' @ toUpperCase (hex_encode bs), w1))"

definition discount_for :: "nat \<Rightarrow> string \<Rightarrow> discount_input" where
  "discount_for now c =
     \<lparr>title = ''Welcome 10% - First Purchase'',
      startsAt = now,
      endsAt = None,
      usageLimit = 1,
      appliesOncePerCustomer = True,
      customerSelection_all = True,
      percentage = 1 / 10,
      items_all = True,
      code = c\<rparr>"

text \<open>\<^verbatim>\<open>a || b\<close> on strings that may be missing: the first one that is there and not
  empty.\<close>

definition or_else :: "string option \<Rightarrow> string \<Rightarrow> string" where
  "or_else a b = (case a of None \<Rightarrow> b | Some s \<Rightarrow> if s = [] then b else s)"

definition createOneTimeTenPercent :: "string \<Rightarrow> world \<Rightarrow> (error + string) \<times> world" where
  "createOneTimeTenPercent c w =
     await (shopifyGQL (DiscountCodeBasicCreate (discount_for (clock w) c)))
       (\<lambda>out w1. case out of
                   DiscountCodeBasicCreate_data returned errs \<Rightarrow>
                     if errs \<noteq> [] then (Inl (Error (join '', '' errs)), w1)
                     else (Inr (or_else returned c), w1)
                 | _ \<Rightarrow> (Inl type_error, w1)) w"

definition truthy :: "string option \<Rightarrow> string option" where
  "truthy v = (case v of None \<Rightarrow> None | Some s \<Rightarrow> if s = [] then None else Some s)"

definition getCustomerAndExistingCode ::
  "string \<Rightarrow> world \<Rightarrow> (error + nat \<times> string option) \<times> world" where
  "getCustomerAndExistingCode email =
     await (shopifyGQL (Customers_first (Field_is ''email'' email)))
       (\<lambda>data w. case data of
           Customers_data (edge # rest) \<Rightarrow> (Inr (customer_id edge, truthy (welcome_code edge)), w)
         | Customers_data [] \<Rightarrow>
             await (shopifyGQL (CustomerCreate email))
               (\<lambda>out w1. case out of
                   CustomerCreate_data created errs \<Rightarrow>
                     if errs \<noteq> [] then (Inl (Error (join '', '' errs)), w1)
                     else (case created of
                             None \<Rightarrow> (Inl type_error, w1)
                           | Some cid \<Rightarrow> (Inr (cid, None), w1))
                 | _ \<Rightarrow> (Inl type_error, w1)) w
         | _ \<Rightarrow> (Inl type_error, w))"

definition setCustomerCodeMetafield :: "nat \<Rightarrow> string \<Rightarrow> world \<Rightarrow> (error + unit) \<times> world" where
  "setCustomerCodeMetafield customerId c =
     await (shopifyGQL (MetafieldsSet
         [\<lparr>mf_ownerId = customerId, mf_namespace = ''welcome'', mf_key = ''code'',
           mf_type = ''single_line_text_field'', mf_value = c\<rparr>]))
       (\<lambda>out w. case out of
           MetafieldsSet_data errs \<Rightarrow>
             if errs \<noteq> [] then (Inl (Error (join '', '' errs)), w) else (Inr (), w)
         | _ \<Rightarrow> (Inl type_error, w))"

text \<open>\<^verbatim>\<open>sendCodeEmail\<close>: the HTML body is a fixed text around the code, so a mail is
  its recipient, its subject and the code.\<close>

definition sendCodeEmail :: "string \<Rightarrow> string \<Rightarrow> world \<Rightarrow> (error + unit) \<times> world" where
  "sendCodeEmail to c w =
     (case next_reply (w\<lparr>calls := calls w @ [SendMail to c]\<rparr>) of
        (Failure msg, w1) \<Rightarrow> (Inl (Error msg), w1)
      | (Answer errs, w1) \<Rightarrow>
          (Inr (), w1\<lparr>outbox := outbox w1 @
             [\<lparr>mail_to = to, mail_subject = ''Your 10% welcome code'', mail_code = c\<rparr>]\<rparr>))"

section \<open>The handler\<close>

text \<open>\<^verbatim>\<open>String(e.message).toLowerCase().includes('has already been taken')\<close>.\<close>

fun already_taken :: "error \<Rightarrow> bool" where
  "already_taken (Error msg) = str_includes (toLowerCase msg) ''has already been taken''"

text \<open>The loop of the handler that mints a code, from \<^verbatim>\<open>tries\<close> attempts made. It
  returns the code created, or the error that leaves the loop.\<close>

function mint :: "nat \<Rightarrow> world \<Rightarrow> (error + string) \<times> world" where
  "mint tries w =
     (if tries < 5 then
        (case makeCode w of
           (candidate, w1) \<Rightarrow>
             (case createOneTimeTenPercent candidate w1 of
                (Inr c, w2) \<Rightarrow> (Inr c, w2)
              | (Inl e, w2) \<Rightarrow> if already_taken e then mint (Suc tries) w2 else (Inl e, w2)))
      else (Inl (Error ''Could not mint unique code''), w))"
  by pat_completeness auto
termination
  by (relation "measure (\<lambda>(tries, w). 5 - tries)") auto

declare mint.simps [simp del]

text \<open>The pattern \<^verbatim>\<open>/^[^\s@]+@[^\s@]+\.[^\s@]+$/\<close>: a sequence of single characters
  and of runs (one character or more) of a class, matched against the whole text.\<close>

datatype atom = Lit char | Run "char \<Rightarrow> bool"

fun matches :: "atom list \<Rightarrow> string \<Rightarrow> bool" where
  "matches [] s = (s = [])"
| "matches (Lit c # r) s = (case s of [] \<Rightarrow> False | x # t \<Rightarrow> x = c \<and> matches r t)"
| "matches (Run p # r) s =
     list_ex (\<lambda>n. list_all p (take n s) \<and> matches r (drop n s)) [1..<Suc (length s)]"

definition not_space_or_at :: "char \<Rightarrow> bool" where
  "not_space_or_at c = (\<not> is_space c \<and> c \<noteq> CHR ''@'')"

definition email_pattern :: "atom list" where
  "email_pattern =
     [Run not_space_or_at, Lit CHR ''@'', Run not_space_or_at, Lit CHR ''.'', Run not_space_or_at]"

text \<open>\<^verbatim>\<open>String(req.body?.email || '').trim().toLowerCase()\<close>.\<close>

definition extract_email :: "string option \<Rightarrow> string" where
  "extract_email b = toLowerCase (trim (or_else b []))"

record response =
  status :: nat
  ok :: bool
  message :: string

text \<open>\<^verbatim>\<open>res.status(n).json({ ok, message })\<close>; \<^verbatim>\<open>res.json\<close> alone answers 200.\<close>

definition json :: "nat \<Rightarrow> bool \<Rightarrow> string \<Rightarrow> response" where
  "json n b m = \<lparr>status = n, ok = b, message = m\<rparr>"

text \<open>The handler from the minting loop on: mint, store the code on the customer,
  send it.\<close>

definition mint_and_send :: "nat \<Rightarrow> string \<Rightarrow> world \<Rightarrow> (error + response) \<times> world" where
  "mint_and_send customerId email =
     await (mint 0)
       (\<lambda>c. await (setCustomerCodeMetafield customerId c)
          (\<lambda>_. await (sendCodeEmail email c)
             (\<lambda>_ w. (Inr (json 200 True ''Your 10% code has been emailed.''), w))))"

text \<open>The body of the \<^verbatim>\<open>try\<close> once the email is validated.\<close>

definition issue :: "string \<Rightarrow> world \<Rightarrow> (error + response) \<times> world" where
  "issue email =
     await (getCustomerAndExistingCode email)
       (\<lambda>(customerId, existingCode).
          case existingCode of
            Some c \<Rightarrow>
              await (sendCodeEmail email c)
                (\<lambda>_ w. (Inr (json 200 True ''Code already issued; re-sent to your email.''), w))
          | None \<Rightarrow>
              await (emailHasAnyOrders email)
                (\<lambda>has w.
                   if has then (Inr (json 409 False ''Coupon codes are for first purchase only.''), w)
                   else mint_and_send customerId email w))"

definition valid_email :: "string \<Rightarrow> bool" where
  "valid_email email = (email \<noteq> [] \<and> matches email_pattern email)"

text \<open>The \<^verbatim>\<open>catch\<close> of the handler: an error thrown in the body is printed with
  \<^verbatim>\<open>console.error\<close> and answered with 500.\<close>

definition respond :: "(error + response) \<times> world \<Rightarrow> response \<times> world" where
  "respond out =
     (case out of
        (Inr r, w) \<Rightarrow> (r, w)
      | (Inl e, w) \<Rightarrow>
          (json 500 False ''Server error. Please try again later.'',
           w\<lparr>console := console w @ [e]\<rparr>))"

definition handler :: "runtime \<Rightarrow> request \<Rightarrow> world \<Rightarrow> response \<times> world" where
  "handler rt req w =
     (if http_method req \<noteq> ''POST'' then (json 405 False ''Method not allowed'', w)
      else if \<not> verifyProxySignature rt req then (json 401 False ''Unauthorised'', w)
      else
        (let email = extract_email (body_email req)
         in if \<not> valid_email email then (json 400 False ''Please enter a valid email.'', w)
            else respond (issue email w)))"

text \<open>A function of key and message that stands for Node's HMAC-SHA256 wherever a
  closed example needs a digest. Nothing below depends on what it computes.\<close>

definition sample_hmac :: "string \<Rightarrow> string \<Rightarrow> byte list" where
  "sample_hmac key msg = map of_char (key @ msg)"

section \<open>A sample shop\<close>

text \<open>A store, a runtime and requests for closed examples. Ann has a stored code; Bob
  has none and one fulfilled order; Eve's metafield is the empty string; Dan has none
  and one order whose fulfillment status is \<^verbatim>\<open>partial\<close>. Every remote call is
  answered.\<close>

definition sample_world :: world where
  "sample_world =
     \<lparr>customers =
        [\<lparr>customer_id = 7, customer_email = ''ann@shop.example'', welcome_code = Some ''WELCOME-ABC123''\<rparr>,
         \<lparr>customer_id = 8, customer_email = ''bob@shop.example'', welcome_code = None\<rparr>,
         \<lparr>customer_id = 9, customer_email = ''eve@shop.example'', welcome_code = Some []\<rparr>,
         \<lparr>customer_id = 10, customer_email = ''dan@shop.example'', welcome_code = None\<rparr>],
      orders =
        [\<lparr>order_id = 1, order_email = ''bob@shop.example'', fulfillment_status = ''fulfilled''\<rparr>,
         \<lparr>order_id = 2, order_email = ''dan@shop.example'', fulfillment_status = ''partial''\<rparr>],
      discounts = [],
      next_customer_id = 11,
      outbox = [],
      replies = (\<lambda>n. Answer []),
      served = 0,
      entropy = (\<lambda>n. of_nat (17 * n + 159)),
      drawn = 0,
      clock = 1000,
      calls = [],
      console = []\<rparr>"

definition sample_runtime :: runtime where
  "sample_runtime = \<lparr>signing_secret = Some ''k'', hmac_sha256 = sample_hmac\<rparr>"

text \<open>A POST whose signature is the digest of \<^verbatim>\<open>/a?shop=x\<close> under
  \<open>sample_runtime\<close>, with the given body field.\<close>

definition sample_request :: "string \<Rightarrow> request" where
  "sample_request email =
     \<lparr>http_method = ''POST'',
      url_parts = Some (''/a'', [(''shop'', ''x''), (''signature'', ''6b2f613f73686f703d78'')]),
      body_email = Some email\<rparr>"

section \<open>Notions for the statements\<close>

text \<open>The error that \<^verbatim>\<open>createOneTimeTenPercent\<close> throws when its call has this
  outcome, if it throws: the failure of the call, or the user errors joined.\<close>

definition creation_error :: "outcome \<Rightarrow> error option" where
  "creation_error oc =
     (case oc of
        Failure msg \<Rightarrow> Some (Error msg)
      | Answer errs \<Rightarrow> if errs \<noteq> [] then Some (Error (join '', '' errs)) else None)"

text \<open>An outcome of the creation whose error the loop takes for a collision.\<close>

definition collides :: "outcome \<Rightarrow> bool" where
  "collides oc = (case creation_error oc of None \<Rightarrow> False | Some e \<Rightarrow> already_taken e)"

text \<open>The world after one pass of the loop's body.\<close>

definition attempt :: "world \<Rightarrow> world" where
  "attempt w = snd (createOneTimeTenPercent (fst (makeCode w)) (snd (makeCode w)))"

text \<open>The number of discount creations among calls.\<close>

fun is_creation :: "call \<Rightarrow> bool" where
  "is_creation (Gql (DiscountCodeBasicCreate d)) = True"
| "is_creation _ = False"

definition creations :: "call list \<Rightarrow> nat" where
  "creations cs = length (filter is_creation cs)"

text \<open>The order search of the handler, on one order.\<close>

definition blocking_order :: "string \<Rightarrow> order \<Rightarrow> bool" where
  "blocking_order email ord =
     (order_email ord = email \<and>
      (fulfillment_status ord = ''unfulfilled'' \<or> fulfillment_status ord = ''fulfilled''))"



text \<open>A code of the campaign: \<^verbatim>\<open>WELCOME-\<close> and six upper-case hexadecimal digits.\<close>

definition welcome_shape :: "string \<Rightarrow> bool" where
  "welcome_shape c =
     (take 8 c = ''WELCOME-'' \<and> length c = 14 \<and>
      list_all (\<lambda>x. x \<in> set ''0123456789ABCDEF'') (drop 8 c))"

section \<open>Lemmas on hexadecimal text\<close>

lemma unhex_hex_digit_all: "list_all (\<lambda>n. unhex (hex_digit n) = Some n) [0..<16]"
  by code_simp

lemma unhex_hex_digit: "n < 16 \<Longrightarrow> unhex (hex_digit n) = Some n"
  using unhex_hex_digit_all by (simp add: list_all_iff)

lemma byte_nibbles: "unat (b :: byte) div 16 < 16" "unat b mod 16 < 16"
proof -
  have "unat b < 2 ^ LENGTH(8)" by (rule unsigned_less)
  then show "unat b div 16 < 16" by simp
  show "unat b mod 16 < 16" by simp
qed

lemma hex_decode_encode: "hex_decode (hex_encode bs) = bs"
  by (induction bs) (simp_all add: hex_encode_def unhex_hex_digit byte_nibbles)

section \<open>Rejected methods\<close>

lemma sample_request_verified: "verifyProxySignature sample_runtime (sample_request e)"
  by code_simp

text \<open>
  C5. The claim: a request whose method is not POST is rejected with status 400 and
  \<^verbatim>\<open>{ok:false}\<close> before any collaborator is invoked. The handler answers 405: a GET
  to the sample shop is the counterexample.
\<close>

theorem method_not_post_counterexample:
  "http_method ((sample_request ''ann@shop.example'')\<lparr>http_method := ''GET''\<rparr>) \<noteq> ''POST'' \<and>
   status (fst (handler sample_runtime
      ((sample_request ''ann@shop.example'')\<lparr>http_method := ''GET''\<rparr>) sample_world)) \<noteq> 400"
  by (simp add: handler_def sample_request_def json_def)

text \<open>
  C5, amended. For every request whose method is not POST the handler answers 405
  with \<^verbatim>\<open>{ok:false}\<close> and leaves the world as it was: no collaborator is called (the
  verifier neither), nothing is written, nothing is logged.
\<close>

theorem method_not_post_405:
  "http_method req \<noteq> ''POST'' \<Longrightarrow>
     status (fst (handler rt req w)) = 405 \<and> \<not> ok (fst (handler rt req w)) \<and>
     snd (handler rt req w) = w"
  by (simp add: handler_def json_def)

theorem method_not_post_405_witness:
  "http_method ((sample_request ''ann@shop.example'')\<lparr>http_method := ''GET''\<rparr>) \<noteq> ''POST'' \<and>
   status (fst (handler sample_runtime
      ((sample_request ''ann@shop.example'')\<lparr>http_method := ''GET''\<rparr>) sample_world)) = 405 \<and>
   calls (snd (handler sample_runtime
      ((sample_request ''ann@shop.example'')\<lparr>http_method := ''GET''\<rparr>) sample_world)) = []"
proof -
  have h: "http_method ((sample_request ''ann@shop.example'')\<lparr>http_method := ''GET''\<rparr>) \<noteq> ''POST''"
    by (simp add: sample_request_def)
  from method_not_post_405 [OF h, of sample_runtime sample_world] h
  show ?thesis by (simp add: sample_world_def)
qed

section \<open>The signature verifier\<close>

text \<open>
  C4. The claim: the verifier returns true if and only if the \<^verbatim>\<open>signature\<close> parameter
  equals the hex-encoded HMAC of the base string, and a signature of the wrong length
  yields false. The verifier compares the decoded bytes, and \<^verbatim>\<open>Buffer.from(s, 'hex')\<close>
  reads digits of either case and stops at the first pair that is not hexadecimal. In
  the sample shop the expected text is \<^verbatim>\<open>6b2f613f73686f703d78\<close>; the same text
  followed by \<^verbatim>\<open>zz\<close> (two characters too long) and the same text in upper case are
  both accepted, and neither equals the expected text.
\<close>

theorem signature_text_counterexample:
  "verifyProxySignature sample_runtime
     \<lparr>http_method = ''POST'',
      url_parts = Some (''/a'', [(''shop'', ''x''), (''signature'', ''6b2f613f73686f703d78zz'')]),
      body_email = None\<rparr> \<and>
   ''6b2f613f73686f703d78zz'' \<noteq>
     hex_encode (hmac_sha256 sample_runtime ''k'' (signature_base ''/a'' [(''shop'', ''x'')])) \<and>
   verifyProxySignature sample_runtime
     \<lparr>http_method = ''POST'',
      url_parts = Some (''/a'', [(''shop'', ''x''), (''signature'', ''6B2F613F73686F703D78'')]),
      body_email = None\<rparr> \<and>
   ''6B2F613F73686F703D78'' \<noteq>
     hex_encode (hmac_sha256 sample_runtime ''k'' (signature_base ''/a'' [(''shop'', ''x'')]))"
  by code_simp

text \<open>
  C4, amended. The verifier returns true if and only if the URL parses, its first
  \<^verbatim>\<open>signature\<close> parameter is there and not empty, the secret is set, and the bytes that
  the parameter decodes to (hexadecimal digits of either case, up to the first pair that
  is not hexadecimal) are the HMAC of the base string: the path name followed by the
  other parameters in their order. So it is a boolean in all cases: a URL that does not
  parse, a missing signature, and a signature that decodes to another number of bytes
  than the digest has all yield false; and the hex-encoded digest itself is accepted.
\<close>

theorem signature_decoded_bytes:
  "(verifyProxySignature rt req \<longleftrightarrow>
      (\<exists>pathname ps sg key.
         url_parts req = Some (pathname, ps) \<and> map_of ps ''signature'' = Some sg \<and> sg \<noteq> [] \<and>
         signing_secret rt = Some key \<and>
         hex_decode sg = hmac_sha256 rt key (signature_base pathname ps))) \<and>
   (url_parts req = None \<longrightarrow> \<not> verifyProxySignature rt req) \<and>
   (\<forall>pathname ps. url_parts req = Some (pathname, ps) \<and> map_of ps ''signature'' = None \<longrightarrow>
      \<not> verifyProxySignature rt req) \<and>
   (\<forall>pathname ps sg key. url_parts req = Some (pathname, ps) \<and> map_of ps ''signature'' = Some sg \<and>
      signing_secret rt = Some key \<and>
      length (hex_decode sg) \<noteq> length (hmac_sha256 rt key (signature_base pathname ps)) \<longrightarrow>
      \<not> verifyProxySignature rt req) \<and>
   (\<forall>pathname ps key. url_parts req = Some (pathname, ps) \<and> signing_secret rt = Some key \<and>
      hmac_sha256 rt key (signature_base pathname ps) \<noteq> [] \<and>
      map_of ps ''signature'' = Some (hex_encode (hmac_sha256 rt key (signature_base pathname ps))) \<longrightarrow>
      verifyProxySignature rt req)"
proof -
  have iff: "verifyProxySignature rt req \<longleftrightarrow>
      (\<exists>pathname ps sg key.
         url_parts req = Some (pathname, ps) \<and> map_of ps ''signature'' = Some sg \<and> sg \<noteq> [] \<and>
         signing_secret rt = Some key \<and>
         hex_decode sg = hmac_sha256 rt key (signature_base pathname ps))"
    by (auto simp: verifyProxySignature_def timingSafeEqual_def hex_decode_encode Let_def
        split: option.splits)
  have nonempty: "hex_encode bs \<noteq> []" if "bs \<noteq> []" for bs
    using that by (cases bs) (simp_all add: hex_encode_def)
  show ?thesis
    apply (intro conjI)
        apply (rule iff)
       apply (simp add: iff)
      apply (simp add: iff)
     apply (auto simp: iff)[1]
    apply (auto simp: iff hex_decode_encode nonempty)
    done
qed

theorem signature_decoded_bytes_witness:
  "verifyProxySignature sample_runtime (sample_request ''ann@shop.example'') \<and>
   \<not> verifyProxySignature sample_runtime ((sample_request ''ann@shop.example'')\<lparr>url_parts := None\<rparr>) \<and>
   \<not> verifyProxySignature sample_runtime
        ((sample_request ''ann@shop.example'')\<lparr>url_parts := Some (''/a'', [(''shop'', ''x'')])\<rparr>)"
proof -
  have d: "hex_decode ''6b2f613f73686f703d78'' =
      sample_hmac ''k'' (signature_base ''/a''
        [(''shop'', ''x''), (''signature'', ''6b2f613f73686f703d78'')])"
    by code_simp
  show ?thesis
    using signature_decoded_bytes [of sample_runtime "sample_request ''ann@shop.example''"]
      signature_decoded_bytes [of sample_runtime
        "(sample_request ''ann@shop.example'')\<lparr>url_parts := None\<rparr>"]
      signature_decoded_bytes [of sample_runtime
        "(sample_request ''ann@shop.example'')\<lparr>url_parts := Some (''/a'', [(''shop'', ''x'')])\<rparr>"]
      d
    by (simp add: sample_request_def sample_runtime_def)
qed

section \<open>Malformed emails\<close>

lemma matches_Run:
  "matches (Run p # r) s \<longleftrightarrow>
     (\<exists>n. 1 \<le> n \<and> n \<le> length s \<and> list_all p (take n s) \<and> matches r (drop n s))"
  by (auto simp: list_ex_iff)

lemma matches_Lit: "matches (Lit c # r) s \<longleftrightarrow> (\<exists>t. s = c # t \<and> matches r t)"
  by (cases s) auto

lemma valid_email_shape:
  assumes "valid_email e"
  shows "e \<noteq> [] \<and> CHR ''@'' \<in> set e \<and> CHR ''.'' \<in> set (tl (dropWhile (\<lambda>c. c \<noteq> CHR ''@'') e))"
proof -
  from assms have m: "matches email_pattern e" and ne: "e \<noteq> []"
    by (simp_all add: valid_email_def)
  from m obtain n t where n: "list_all not_space_or_at (take n e)"
    and d: "drop n e = CHR ''@'' # t"
    and t: "matches [Run not_space_or_at, Lit CHR ''.'', Run not_space_or_at] t"
    unfolding email_pattern_def matches_Run matches_Lit by blast
  from t obtain k u where u: "drop k t = CHR ''.'' # u"
    unfolding matches_Run matches_Lit by blast
  have e: "e = take n e @ CHR ''@'' # t"
    using d append_take_drop_id [of n e] by simp
  have "\<forall>x\<in>set (take n e). x \<noteq> CHR ''@''"
    using n by (auto simp: list_all_iff not_space_or_at_def)
  then have "dropWhile (\<lambda>c. c \<noteq> CHR ''@'') (take n e @ CHR ''@'' # t) = CHR ''@'' # t"
    by (simp add: dropWhile_append3)
  with e have tl: "tl (dropWhile (\<lambda>c. c \<noteq> CHR ''@'') e) = t" by simp
  have "t = take k t @ CHR ''.'' # u"
    using u append_take_drop_id [of k t] by simp
  then have "CHR ''.'' \<in> set t" by (metis in_set_conv_decomp)
  moreover have "CHR ''@'' \<in> set e" using e by (metis in_set_conv_decomp)
  ultimately show ?thesis using ne tl by simp
qed

text \<open>
  C6. A verified POST whose email, as extracted from the body, is empty, has no
  \<^verbatim>\<open>@\<close>, or has no dot after its first \<^verbatim>\<open>@\<close> is answered 400 with
  \<^verbatim>\<open>{ok:false}\<close>, and the world is left as it was: no call to the platform, no
  minting, no mail.
\<close>

theorem malformed_email_400:
  assumes "http_method req = ''POST''" and "verifyProxySignature rt req"
    and "extract_email (body_email req) = [] \<or>
         CHR ''@'' \<notin> set (extract_email (body_email req)) \<or>
         CHR ''.'' \<notin> set (tl (dropWhile (\<lambda>c. c \<noteq> CHR ''@'') (extract_email (body_email req))))"
  shows "handler rt req w = (json 400 False ''Please enter a valid email.'', w)"
proof -
  from assms(3) have "\<not> valid_email (extract_email (body_email req))"
    using valid_email_shape by blast
  with assms(1,2) show ?thesis by (simp add: handler_def)
qed

theorem malformed_email_400_witness:
  "status (fst (handler sample_runtime (sample_request ''ann.shop@example'') sample_world)) = 400 \<and>
   \<not> ok (fst (handler sample_runtime (sample_request ''ann.shop@example'') sample_world)) \<and>
   calls (snd (handler sample_runtime (sample_request ''ann.shop@example'') sample_world)) = []"
proof -
  have e: "extract_email (body_email (sample_request ''ann.shop@example'')) = ''ann.shop@example''"
    by code_simp
  have p: "http_method (sample_request ''ann.shop@example'') = ''POST''"
    by (simp add: sample_request_def)
  have d: "CHR ''.'' \<notin> set (tl (dropWhile (\<lambda>c. c \<noteq> CHR ''@'') ''ann.shop@example''))"
    by simp
  from malformed_email_400 [OF p sample_request_verified, of sample_world] e d
  show ?thesis by (simp add: json_def sample_world_def)
qed

section \<open>The submitted email\<close>










section \<open>The calls of the workflow\<close>

lemma take1_filter:
  "take (Suc 0) (filter P xs) = (case find P xs of None \<Rightarrow> [] | Some x \<Rightarrow> [x])"
  by (induction xs) simp_all

lemma shopifyGQL_Failure:
  "replies w (served w) = Failure m \<Longrightarrow>
   shopifyGQL rq w = (Inl (Error m), w\<lparr>calls := calls w @ [Gql rq], served := Suc (served w)\<rparr>)"
  by (simp add: shopifyGQL_def next_reply_def)

lemma shopifyGQL_Answer:
  "replies w (served w) = Answer errs \<Longrightarrow>
   shopifyGQL rq w =
     (case platform rq errs (w\<lparr>calls := calls w @ [Gql rq], served := Suc (served w)\<rparr>) of
        (d, w2) \<Rightarrow> (Inr d, w2))"
  by (simp add: shopifyGQL_def next_reply_def)

lemma lookup_found:
  assumes "replies w (served w) = Answer errs"
    and "find (\<lambda>c. customer_email c = e) (customers w) = Some c"
  shows "getCustomerAndExistingCode e w =
     (Inr (customer_id c, truthy (welcome_code c)),
      w\<lparr>calls := calls w @ [Gql (Customers_first (Field_is ''email'' e))], served := Suc (served w)\<rparr>)"
  using assms
  by (simp add: getCustomerAndExistingCode_def await_def shopifyGQL_Answer take1_filter
      customer_field_def)

lemma sendCodeEmail_Answer:
  "replies w (served w) = Answer errs \<Longrightarrow>
   sendCodeEmail to c w =
     (Inr (), w\<lparr>calls := calls w @ [SendMail to c], served := Suc (served w),
        outbox := outbox w @
          [\<lparr>mail_to = to, mail_subject = ''Your 10% welcome code'', mail_code = c\<rparr>]\<rparr>)"
  by (simp add: sendCodeEmail_def next_reply_def)

lemma sendCodeEmail_Failure:
  "replies w (served w) = Failure m \<Longrightarrow>
   sendCodeEmail to c w =
     (Inl (Error m), w\<lparr>calls := calls w @ [SendMail to c], served := Suc (served w)\<rparr>)"
  by (simp add: sendCodeEmail_def next_reply_def)

lemma orders_edges:
  "(filter (\<lambda>ord. search_holds (order_field ord) (orders_search e)) os \<noteq> []) =
   list_ex (blocking_order e) os"
  by (induction os) (auto simp: orders_search_def order_field_def blocking_order_def)

lemma emailHasAnyOrders_Answer:
  "replies w (served w) = Answer errs \<Longrightarrow>
   emailHasAnyOrders e w =
     (Inr (list_ex (blocking_order e) (orders w)),
      w\<lparr>calls := calls w @ [Gql (Orders_first (orders_search e))], served := Suc (served w)\<rparr>)"
  by (simp add: emailHasAnyOrders_def await_def shopifyGQL_Answer orders_edges)

lemma emailHasAnyOrders_Failure:
  "replies w (served w) = Failure m \<Longrightarrow>
   emailHasAnyOrders e w =
     (Inl (Error m),
      w\<lparr>calls := calls w @ [Gql (Orders_first (orders_search e))], served := Suc (served w)\<rparr>)"
  by (simp add: emailHasAnyOrders_def await_def shopifyGQL_Failure)

lemma handler_issue:
  "http_method req = ''POST'' \<Longrightarrow> verifyProxySignature rt req \<Longrightarrow>
   valid_email (extract_email (body_email req)) \<Longrightarrow>
   handler rt req w = respond (issue (extract_email (body_email req)) w)"
  by (simp add: handler_def)

lemma resend_once:
  assumes "http_method req = ''POST''" and "verifyProxySignature rt req"
    and "extract_email (body_email req) = e" and "valid_email e"
    and "find (\<lambda>c. customer_email c = e) (customers w) = Some c"
    and "welcome_code c = Some k" and "k \<noteq> []"
    and "replies w (served w) = Answer errs"
  shows "handler rt req w =
     (case replies w (Suc (served w)) of
        Answer a \<Rightarrow>
          (json 200 True ''Code already issued; re-sent to your email.'',
           w\<lparr>calls := calls w @ [Gql (Customers_first (Field_is ''email'' e)), SendMail e k],
             served := Suc (Suc (served w)),
             outbox := outbox w @
               [\<lparr>mail_to = e, mail_subject = ''Your 10% welcome code'', mail_code = k\<rparr>]\<rparr>)
      | Failure m \<Rightarrow>
          (json 500 False ''Server error. Please try again later.'',
           w\<lparr>calls := calls w @ [Gql (Customers_first (Field_is ''email'' e)), SendMail e k],
             served := Suc (Suc (served w)),
             console := console w @ [Error m]\<rparr>))"
proof -
  let ?w1 = "w\<lparr>calls := calls w @ [Gql (Customers_first (Field_is ''email'' e))],
               served := Suc (served w)\<rparr>"
  have look: "getCustomerAndExistingCode e w = (Inr (customer_id c, Some k), ?w1)"
    using lookup_found [OF assms(8) assms(5)] assms(6,7) by (simp add: truthy_def)
  have h: "handler rt req w = respond (issue e w)"
    using handler_issue [OF assms(1,2)] assms(3,4) by simp
  show ?thesis
  proof (cases "replies w (Suc (served w))")
    case (Answer a)
    then have "replies ?w1 (served ?w1) = Answer a" by simp
    from sendCodeEmail_Answer [OF this] Answer look h show ?thesis
      by (simp add: issue_def await_def respond_def)
  next
    case (Failure m)
    then have "replies ?w1 (served ?w1) = Failure m" by simp
    from sendCodeEmail_Failure [OF this] Failure look h show ?thesis
      by (simp add: issue_def await_def respond_def)
  qed
qed


text \<open>
  C1. The claim: a verified, validated request whose email resolves to a customer with
  a stored code sends that code, never invokes the minter, and responds 200 with
  \<^verbatim>\<open>{ok:true}\<close>. The send can fail: the mail transport rejects Ann's mail in the
  world below, and the handler answers 500 with \<^verbatim>\<open>{ok:false}\<close>.
\<close>

theorem resend_counterexample:
  "http_method (sample_request ''ann@shop.example'') = ''POST'' \<and>
   verifyProxySignature sample_runtime (sample_request ''ann@shop.example'') \<and>
   valid_email (extract_email (body_email (sample_request ''ann@shop.example''))) \<and>
   map welcome_code (filter (\<lambda>c. customer_email c = extract_email (body_email (sample_request ''ann@shop.example'')))
     (customers (sample_world\<lparr>replies := (\<lambda>n. if n = 1 then Failure ''mail transport down'' else Answer [])\<rparr>))) =
     [Some ''WELCOME-ABC123''] \<and>
   status (fst (handler sample_runtime (sample_request ''ann@shop.example'')
     (sample_world\<lparr>replies := (\<lambda>n. if n = 1 then Failure ''mail transport down'' else Answer [])\<rparr>))) = 500 \<and>
   \<not> ok (fst (handler sample_runtime (sample_request ''ann@shop.example'')
     (sample_world\<lparr>replies := (\<lambda>n. if n = 1 then Failure ''mail transport down'' else Answer [])\<rparr>)))"
  by code_simp

text \<open>
  C1, amended. For two consecutive verified POST requests with the same valid extracted
  email, which the platform resolves to a customer with a stored, non-empty code (both
  lookups answered): each request calls the customer lookup and then the mail transport
  with exactly that stored code, and nothing else; no random bytes are drawn, no
  discount is created, no customer changes; and each response is 200 with
  \<^verbatim>\<open>{ok:true}\<close> when the transport accepts its mail, 500 with \<^verbatim>\<open>{ok:false}\<close> when it
  rejects it.
\<close>

theorem resend_stored_code:
  assumes "http_method req1 = ''POST''" and "verifyProxySignature rt req1"
    and "http_method req2 = ''POST''" and "verifyProxySignature rt req2"
    and "extract_email (body_email req1) = e" and "extract_email (body_email req2) = e"
    and "valid_email e"
    and "find (\<lambda>c. customer_email c = e) (customers w) = Some c"
    and "welcome_code c = Some k" and "k \<noteq> []"
    and "replies w (served w) = Answer a1" and "replies w (served w + 2) = Answer a2"
  shows "(let out1 = handler rt req1 w; out2 = handler rt req2 (snd out1) in
            calls (snd out1) =
              calls w @ [Gql (Customers_first (Field_is ''email'' e)), SendMail e k] \<and>
            calls (snd out2) =
              calls (snd out1) @ [Gql (Customers_first (Field_is ''email'' e)), SendMail e k] \<and>
            customers (snd out2) = customers w \<and> discounts (snd out2) = discounts w \<and>
            drawn (snd out2) = drawn w \<and>
            fst out1 =
              (case replies w (served w + 1) of
                 Answer a \<Rightarrow> json 200 True ''Code already issued; re-sent to your email.''
               | Failure m \<Rightarrow> json 500 False ''Server error. Please try again later.'') \<and>
            fst out2 =
              (case replies w (served w + 3) of
                 Answer a \<Rightarrow> json 200 True ''Code already issued; re-sent to your email.''
               | Failure m \<Rightarrow> json 500 False ''Server error. Please try again later.''))"
proof -
  obtain r1 w1 where first: "handler rt req1 w = (r1, w1)" by (cases "handler rt req1 w")
  note once = resend_once [OF assms(1,2,5,7,8,9,10,11)]
  from first once have w1: "customers w1 = customers w" "discounts w1 = discounts w"
    "drawn w1 = drawn w" "replies w1 = replies w" "served w1 = served w + 2"
    "calls w1 = calls w @ [Gql (Customers_first (Field_is ''email'' e)), SendMail e k]"
    and r1: "r1 = (case replies w (served w + 1) of
                    Answer a \<Rightarrow> json 200 True ''Code already issued; re-sent to your email.''
                  | Failure m \<Rightarrow> json 500 False ''Server error. Please try again later.'')"
    by (auto split: outcome.splits)
  obtain r2 w2 where second: "handler rt req2 w1 = (r2, w2)" by (cases "handler rt req2 w1")
  have "find (\<lambda>c. customer_email c = e) (customers w1) = Some c" using assms(8) w1 by simp
  moreover have "replies w1 (served w1) = Answer a2" using assms(12) w1 by simp
  ultimately have twice: "handler rt req2 w1 =
     (case replies w1 (Suc (served w1)) of
        Answer a \<Rightarrow>
          (json 200 True ''Code already issued; re-sent to your email.'',
           w1\<lparr>calls := calls w1 @ [Gql (Customers_first (Field_is ''email'' e)), SendMail e k],
             served := Suc (Suc (served w1)),
             outbox := outbox w1 @
               [\<lparr>mail_to = e, mail_subject = ''Your 10% welcome code'', mail_code = k\<rparr>]\<rparr>)
      | Failure m \<Rightarrow>
          (json 500 False ''Server error. Please try again later.'',
           w1\<lparr>calls := calls w1 @ [Gql (Customers_first (Field_is ''email'' e)), SendMail e k],
             served := Suc (Suc (served w1)),
             console := console w1 @ [Error m]\<rparr>))"
    by (rule resend_once [OF assms(3,4,6,7) _ assms(9,10)])
  have three: "Suc (served w1) = served w + 3" using w1 by simp
  from second twice have w2: "customers w2 = customers w1" "discounts w2 = discounts w1"
    "drawn w2 = drawn w1"
    "calls w2 = calls w1 @ [Gql (Customers_first (Field_is ''email'' e)), SendMail e k]"
    and r2: "r2 = (case replies w (served w + 3) of
                    Answer a \<Rightarrow> json 200 True ''Code already issued; re-sent to your email.''
                  | Failure m \<Rightarrow> json 500 False ''Server error. Please try again later.'')"
    unfolding three w1(4) by (auto split: outcome.splits)
  show ?thesis
    using first second w1 w2 r1 r2 by (simp add: Let_def)
qed

theorem resend_stored_code_witness:
  "calls (snd (handler sample_runtime (sample_request ''  Ann@Shop.Example '')
      (snd (handler sample_runtime (sample_request ''ann@shop.example'') sample_world)))) =
     [Gql (Customers_first (Field_is ''email'' ''ann@shop.example'')),
      SendMail ''ann@shop.example'' ''WELCOME-ABC123'',
      Gql (Customers_first (Field_is ''email'' ''ann@shop.example'')),
      SendMail ''ann@shop.example'' ''WELCOME-ABC123''] \<and>
   status (fst (handler sample_runtime (sample_request ''ann@shop.example'') sample_world)) = 200 \<and>
   status (fst (handler sample_runtime (sample_request ''  Ann@Shop.Example '')
      (snd (handler sample_runtime (sample_request ''ann@shop.example'') sample_world)))) = 200"
proof -
  have p: "http_method (sample_request x) = ''POST''" for x
    by (simp add: sample_request_def)
  have e1: "extract_email (body_email (sample_request ''ann@shop.example'')) = ''ann@shop.example''"
    and e2: "extract_email (body_email (sample_request ''  Ann@Shop.Example '')) = ''ann@shop.example''"
    and v: "valid_email ''ann@shop.example''"
    by code_simp+
  have f: "find (\<lambda>c. customer_email c = ''ann@shop.example'') (customers sample_world) =
      Some \<lparr>customer_id = 7, customer_email = ''ann@shop.example'',
            welcome_code = Some ''WELCOME-ABC123''\<rparr>"
    by (simp add: sample_world_def)
  have r: "replies sample_world (served sample_world) = Answer []"
    "replies sample_world (served sample_world + 2) = Answer []"
    by (simp_all add: sample_world_def)
  from resend_stored_code [OF p sample_request_verified p sample_request_verified e1 e2 v f _ _ r]
  show ?thesis by (simp add: Let_def sample_world_def json_def)
qed

section \<open>The first-purchase check\<close>

lemma lookup_footprint:
  assumes "getCustomerAndExistingCode e w = (Inr (cid, x), w1)"
  shows "discounts w1 = discounts w \<and> outbox w1 = outbox w \<and> orders w1 = orders w \<and>
     drawn w1 = drawn w \<and> replies w1 = replies w \<and> console w1 = console w \<and>
     clock w1 = clock w \<and> entropy w1 = entropy w \<and>
     take (length (customers w)) (customers w1) = customers w \<and>
     (calls w1 = calls w @ [Gql (Customers_first (Field_is ''email'' e))] \<and>
        served w1 = served w + 1 \<or>
      calls w1 = calls w @ [Gql (Customers_first (Field_is ''email'' e)), Gql (CustomerCreate e)] \<and>
        served w1 = served w + 2)"
  using assms
  by (auto simp: getCustomerAndExistingCode_def await_def shopifyGQL_def next_reply_def
      split: outcome.splits list.splits if_splits option.splits prod.splits)

text \<open>
  C2. The claim: a verified, validated request whose email has no stored code but at
  least one order is answered 409, with no call to the minter or the notifier and no
  mutation. Bob has no stored code and a fulfilled order; when the platform fails the
  order query, the handler answers 500.
\<close>

theorem order_blocks_counterexample:
  "http_method (sample_request ''bob@shop.example'') = ''POST'' \<and>
   verifyProxySignature sample_runtime (sample_request ''bob@shop.example'') \<and>
   valid_email (extract_email (body_email (sample_request ''bob@shop.example''))) \<and>
   map welcome_code (filter (\<lambda>c. customer_email c = ''bob@shop.example'')
     (customers (sample_world\<lparr>replies := (\<lambda>n. if n = 1 then Failure ''HTTP 503'' else Answer [])\<rparr>))) =
     [None] \<and>
   map fulfillment_status (filter (\<lambda>ord. order_email ord = ''bob@shop.example'')
     (orders (sample_world\<lparr>replies := (\<lambda>n. if n = 1 then Failure ''HTTP 503'' else Answer [])\<rparr>))) =
     [''fulfilled''] \<and>
   status (fst (handler sample_runtime (sample_request ''bob@shop.example'')
     (sample_world\<lparr>replies := (\<lambda>n. if n = 1 then Failure ''HTTP 503'' else Answer [])\<rparr>))) = 500"
  by code_simp

text \<open>
  C2, amended. For a verified POST with a valid extracted email, when the customer
  lookup returns no stored code, the order query is answered, and the email has an
  order whose fulfillment status is \<^verbatim>\<open>fulfilled\<close> or \<^verbatim>\<open>unfulfilled\<close>: the handler
  answers 409 with \<^verbatim>\<open>{ok:false}\<close>; after the lookup (one query, and the creation of
  the customer when there was none) its only call is the order query, so no mail is
  sent and no code is generated; no discount is created and the customers that
  existed keep their metafields.
\<close>

theorem order_blocks_409:
  assumes "http_method req = ''POST''" and "verifyProxySignature rt req"
    and "extract_email (body_email req) = e" and "valid_email e"
    and "getCustomerAndExistingCode e w = (Inr (cid, None), w1)"
    and "replies w1 (served w1) = Answer errs"
    and "list_ex (blocking_order e) (orders w)"
  shows "fst (handler rt req w) = json 409 False ''Coupon codes are for first purchase only.'' \<and>
     discounts (snd (handler rt req w)) = discounts w \<and>
     outbox (snd (handler rt req w)) = outbox w \<and>
     drawn (snd (handler rt req w)) = drawn w \<and>
     take (length (customers w)) (customers (snd (handler rt req w))) = customers w \<and>
     calls (snd (handler rt req w)) = calls w1 @ [Gql (Orders_first (orders_search e))] \<and>
     (calls w1 = calls w @ [Gql (Customers_first (Field_is ''email'' e))] \<or>
      calls w1 = calls w @ [Gql (Customers_first (Field_is ''email'' e)), Gql (CustomerCreate e)])"
proof -
  note fp = lookup_footprint [OF assms(5)]
  have blocked: "list_ex (blocking_order e) (orders w1)" using assms(7) fp by simp
  have "handler rt req w = respond (issue e w)"
    using handler_issue [OF assms(1,2)] assms(3,4) by simp
  also have "\<dots> = (json 409 False ''Coupon codes are for first purchase only.'',
      w1\<lparr>calls := calls w1 @ [Gql (Orders_first (orders_search e))], served := Suc (served w1)\<rparr>)"
    using assms(5) emailHasAnyOrders_Answer [OF assms(6), of e] blocked
    by (simp add: issue_def await_def respond_def)
  finally show ?thesis using fp by auto
qed

theorem order_blocks_409_witness:
  "status (fst (handler sample_runtime (sample_request ''bob@shop.example'') sample_world)) = 409 \<and>
   \<not> ok (fst (handler sample_runtime (sample_request ''bob@shop.example'') sample_world)) \<and>
   calls (snd (handler sample_runtime (sample_request ''bob@shop.example'') sample_world)) =
     [Gql (Customers_first (Field_is ''email'' ''bob@shop.example'')),
      Gql (Orders_first (orders_search ''bob@shop.example''))] \<and>
   discounts (snd (handler sample_runtime (sample_request ''bob@shop.example'') sample_world)) = []"
proof -
  have p: "http_method (sample_request ''bob@shop.example'') = ''POST''"
    by (simp add: sample_request_def)
  have e: "extract_email (body_email (sample_request ''bob@shop.example'')) = ''bob@shop.example''"
    and v: "valid_email ''bob@shop.example''"
    by code_simp+
  have r: "replies sample_world (served sample_world) = Answer []"
    "replies sample_world (Suc (served sample_world)) = Answer []"
    by (simp_all add: sample_world_def)
  have f: "find (\<lambda>c. customer_email c = ''bob@shop.example'') (customers sample_world) =
      Some \<lparr>customer_id = 8, customer_email = ''bob@shop.example'', welcome_code = None\<rparr>"
    by (simp add: sample_world_def)
  have l: "getCustomerAndExistingCode ''bob@shop.example'' sample_world =
      (Inr (8, None),
       sample_world\<lparr>calls := calls sample_world @
            [Gql (Customers_first (Field_is ''email'' ''bob@shop.example''))],
          served := Suc (served sample_world)\<rparr>)"
    using lookup_found [OF r(1) f] by (simp add: truthy_def)
  have b: "list_ex (blocking_order ''bob@shop.example'') (orders sample_world)"
    by (simp add: sample_world_def blocking_order_def)
  have c: "calls sample_world = []" "discounts sample_world = []"
    by (simp_all add: sample_world_def)
  from order_blocks_409 [OF p sample_request_verified e v l _ b, of "[]"] r c
  show ?thesis by (simp add: json_def)
qed

text \<open>
  C7. The claim: the order check returns true if and only if the email has an order in
  any fulfillment state, so that any order blocks issuance. The search that
  \<^verbatim>\<open>emailHasAnyOrders\<close> sends asks for the statuses \<^verbatim>\<open>unfulfilled\<close> and
  \<^verbatim>\<open>fulfilled\<close> only. Dan's one order is \<^verbatim>\<open>partial\<close>: the check answers false, and
  the handler mints a code for him.
\<close>

theorem partial_order_not_found:
  "map fulfillment_status
     (filter (\<lambda>ord. order_email ord = ''dan@shop.example'') (orders sample_world)) =
     [''partial''] \<and>
   fst (emailHasAnyOrders ''dan@shop.example'' sample_world) = Inr False \<and>
   (case handler sample_runtime (sample_request ''dan@shop.example'') sample_world of
      (r, w) \<Rightarrow> status r = 200 \<and> map code (discounts w) = [''WELCOME-9FB0C1''])"
  by code_simp

section \<open>The minting loop\<close>

lemma makeCode_effect:
  "makeCode w =
     (''WELCOME-'' @ toUpperCase (hex_encode
         [entropy w (drawn w), entropy w (drawn w + 1), entropy w (drawn w + 2)]),
      w\<lparr>drawn := drawn w + 3, calls := calls w @ [RandomBytes 3]\<rparr>)"
proof -
  have "[0..<3] = [0, 1, 2]" by (simp add: upt_rec)
  then show ?thesis by (simp add: makeCode_def randomBytes_def)
qed

lemma createOneTimeTenPercent_effect:
  "createOneTimeTenPercent c w =
     (case creation_error (replies w (served w)) of
        Some e \<Rightarrow>
          (Inl e,
           w\<lparr>calls := calls w @ [Gql (DiscountCodeBasicCreate (discount_for (clock w) c))],
             served := Suc (served w)\<rparr>)
      | None \<Rightarrow>
          (Inr c,
           w\<lparr>calls := calls w @ [Gql (DiscountCodeBasicCreate (discount_for (clock w) c))],
             served := Suc (served w),
             discounts := discounts w @ [discount_for (clock w) c]\<rparr>))"
  by (cases "replies w (served w)")
    (simp_all add: createOneTimeTenPercent_def await_def shopifyGQL_def next_reply_def
      creation_error_def or_else_def discount_for_def)

lemma attempt_fields:
  "served (attempt w) = Suc (served w)" "drawn (attempt w) = drawn w + 3"
  "replies (attempt w) = replies w" "entropy (attempt w) = entropy w"
  "clock (attempt w) = clock w" "customers (attempt w) = customers w"
  "outbox (attempt w) = outbox w" "orders (attempt w) = orders w"
  "console (attempt w) = console w"
  "creations (calls (attempt w)) = Suc (creations (calls w))"
  by (simp_all add: attempt_def makeCode_effect createOneTimeTenPercent_effect creations_def
      split: option.splits)

lemma attempt_discounts:
  "discounts (attempt w) =
     (if creation_error (replies w (served w)) = None
      then discounts w @ [discount_for (clock w) (fst (makeCode w))] else discounts w)"
  by (simp add: attempt_def makeCode_effect createOneTimeTenPercent_effect split: option.splits)

lemma mint_step:
  "tries < 5 \<Longrightarrow>
   mint tries w =
     (case creation_error (replies w (served w)) of
        None \<Rightarrow> (Inr (fst (makeCode w)), attempt w)
      | Some e \<Rightarrow> if already_taken e then mint (Suc tries) (attempt w) else (Inl e, attempt w))"
  by (subst mint.simps)
    (simp add: attempt_def makeCode_effect createOneTimeTenPercent_effect split: option.splits)

lemma mint_exhausted:
  "\<not> tries < 5 \<Longrightarrow> mint tries w = (Inl (Error ''Could not mint unique code''), w)"
  by (subst mint.simps) simp

lemma attempts_fields:
  "served ((attempt ^^ k) w) = served w + k" "drawn ((attempt ^^ k) w) = drawn w + 3 * k"
  "replies ((attempt ^^ k) w) = replies w" "entropy ((attempt ^^ k) w) = entropy w"
  "clock ((attempt ^^ k) w) = clock w" "customers ((attempt ^^ k) w) = customers w"
  "outbox ((attempt ^^ k) w) = outbox w" "orders ((attempt ^^ k) w) = orders w"
  "console ((attempt ^^ k) w) = console w"
  "creations (calls ((attempt ^^ k) w)) = creations (calls w) + k"
  by (induction k) (simp_all add: attempt_fields)

lemma mint_collisions:
  "tries + k \<le> 5 \<Longrightarrow> (\<forall>i<k. collides (replies w (served w + i))) \<Longrightarrow>
   mint tries w = mint (tries + k) ((attempt ^^ k) w)"
proof (induction k arbitrary: tries w)
  case 0
  then show ?case by simp
next
  case (Suc k)
  from Suc.prems have c: "collides (replies w (served w))" by force
  from Suc.prems have lt: "tries < 5" by simp
  have later: "\<forall>i<k. collides (replies (attempt w) (served (attempt w) + i))"
    using Suc.prems(2) by (auto simp: attempt_fields)
  have "mint tries w = mint (Suc tries) (attempt w)"
    using c by (simp add: mint_step [OF lt] collides_def split: option.splits)
  also have "\<dots> = mint (Suc tries + k) ((attempt ^^ k) (attempt w))"
    using Suc.prems(1) later by (intro Suc.IH) simp_all
  finally show ?case by (simp add: funpow_swap1)
qed

lemma mint_creations: "creations (calls (snd (mint tries w))) \<le> creations (calls w) + (5 - tries)"
proof (induction "5 - tries" arbitrary: tries w)
  case 0
  then show ?case by (simp add: mint_exhausted)
next
  case (Suc n)
  then have lt: "tries < 5" and n: "n = 5 - Suc tries" by simp_all
  show ?case
  proof (cases "creation_error (replies w (served w))")
    case None
    with lt show ?thesis by (simp add: mint_step attempt_fields)
  next
    case (Some e)
    show ?thesis
    proof (cases "already_taken e")
      case False
      with lt Some show ?thesis by (simp add: mint_step attempt_fields)
    next
      case True
      from Suc.hyps(1) [OF n, of "attempt w"]
      have "creations (calls (snd (mint (Suc tries) (attempt w)))) \<le>
            creations (calls (attempt w)) + (5 - Suc tries)" .
      with lt Some True show ?thesis by (simp add: mint_step attempt_fields)
    qed
  qed
qed

lemma mint_footprint:
  "customers (snd (mint tries w)) = customers w \<and> outbox (snd (mint tries w)) = outbox w \<and>
   replies (snd (mint tries w)) = replies w \<and> clock (snd (mint tries w)) = clock w \<and>
   console (snd (mint tries w)) = console w \<and> orders (snd (mint tries w)) = orders w"
proof (induction "5 - tries" arbitrary: tries w)
  case 0
  then show ?case by (simp add: mint_exhausted)
next
  case (Suc n)
  then have lt: "tries < 5" and n: "n = 5 - Suc tries" by simp_all
  note ih = Suc.hyps(1) [OF n, of "attempt w"]
  show ?case
    using ih by (auto simp: mint_step [OF lt] attempt_fields split: option.splits)
qed


text \<open>
  C3. The minting loop, started with no attempt made, creates a discount at most five
  times. An attempt is followed by another one exactly when its creation error is a
  collision (its message contains \<^verbatim>\<open>has already been taken\<close> in any letter case):
  after \<open>k < 5\<close> collisions, another creation error leaves the loop at once as its
  result, with \<open>k + 1\<close> creations made, and a creation that succeeds returns the code
  generated from three fresh random bytes; after five collisions in a row the loop
  throws \<^verbatim>\<open>Could not mint unique code\<close> with five creations made, and the handler
  prints that error and answers 500.
\<close>

theorem mint_retries:
  "creations (calls (snd (mint 0 w))) \<le> creations (calls w) + 5 \<and>
   (\<forall>k e. k < 5 \<and> (\<forall>i<k. collides (replies w (served w + i))) \<and>
       creation_error (replies w (served w + k)) = Some e \<and> \<not> already_taken e \<longrightarrow>
       mint 0 w = (Inl e, (attempt ^^ Suc k) w) \<and>
       creations (calls ((attempt ^^ Suc k) w)) = creations (calls w) + Suc k) \<and>
   (\<forall>k. k < 5 \<and> (\<forall>i<k. collides (replies w (served w + i))) \<and>
       creation_error (replies w (served w + k)) = None \<longrightarrow>
       mint 0 w =
         (Inr (''WELCOME-'' @ toUpperCase (hex_encode
            [entropy w (drawn w + 3 * k), entropy w (drawn w + 3 * k + 1),
             entropy w (drawn w + 3 * k + 2)])),
          (attempt ^^ Suc k) w) \<and>
       creations (calls ((attempt ^^ Suc k) w)) = creations (calls w) + Suc k) \<and>
   ((\<forall>i<5. collides (replies w (served w + i))) \<longrightarrow>
       mint 0 w = (Inl (Error ''Could not mint unique code''), (attempt ^^ 5) w) \<and>
       creations (calls ((attempt ^^ 5) w)) = creations (calls w) + 5 \<and>
       respond (mint_and_send customerId email w) =
         (json 500 False ''Server error. Please try again later.'',
          ((attempt ^^ 5) w)\<lparr>console := console w @ [Error ''Could not mint unique code'']\<rparr>))"
proof (intro conjI allI impI)
  show "creations (calls (snd (mint 0 w))) \<le> creations (calls w) + 5"
    using mint_creations [of 0 w] by simp
next
  fix k e
  assume a: "k < 5 \<and> (\<forall>i<k. collides (replies w (served w + i))) \<and>
       creation_error (replies w (served w + k)) = Some e \<and> \<not> already_taken e"
  then have "mint 0 w = mint k ((attempt ^^ k) w)"
    using mint_collisions [of 0 k w] by simp
  also have "\<dots> = (Inl e, attempt ((attempt ^^ k) w))"
    using a by (simp add: mint_step attempts_fields)
  finally show "mint 0 w = (Inl e, (attempt ^^ Suc k) w)" by simp
  show "creations (calls ((attempt ^^ Suc k) w)) = creations (calls w) + Suc k"
    by (rule attempts_fields)
next
  fix k
  assume a: "k < 5 \<and> (\<forall>i<k. collides (replies w (served w + i))) \<and>
       creation_error (replies w (served w + k)) = None"
  then have "mint 0 w = mint k ((attempt ^^ k) w)"
    using mint_collisions [of 0 k w] by simp
  also have "\<dots> = (Inr (fst (makeCode ((attempt ^^ k) w))), attempt ((attempt ^^ k) w))"
    using a by (simp add: mint_step attempts_fields)
  finally show "mint 0 w =
         (Inr (''WELCOME-'' @ toUpperCase (hex_encode
            [entropy w (drawn w + 3 * k), entropy w (drawn w + 3 * k + 1),
             entropy w (drawn w + 3 * k + 2)])),
          (attempt ^^ Suc k) w)"
    by (simp add: makeCode_effect attempts_fields)
  show "creations (calls ((attempt ^^ Suc k) w)) = creations (calls w) + Suc k"
    by (rule attempts_fields)
next
  assume a: "\<forall>i<5. collides (replies w (served w + i))"
  then have "mint 0 w = mint 5 ((attempt ^^ 5) w)"
    using mint_collisions [of 0 5 w] by simp
  then show m: "mint 0 w = (Inl (Error ''Could not mint unique code''), (attempt ^^ 5) w)"
    by (simp add: mint_exhausted)
  show "creations (calls ((attempt ^^ 5) w)) = creations (calls w) + 5"
    by (rule attempts_fields)
  show "respond (mint_and_send customerId email w) =
         (json 500 False ''Server error. Please try again later.'',
          ((attempt ^^ 5) w)\<lparr>console := console w @ [Error ''Could not mint unique code'']\<rparr>)"
    using m by (simp add: mint_and_send_def await_def respond_def attempts_fields)
qed

theorem mint_retries_witness:
  "fst (mint 0 (sample_world\<lparr>replies := (\<lambda>n. Answer [''Code has already been taken''])\<rparr>)) =
     Inl (Error ''Could not mint unique code'') \<and>
   creations (calls (snd (mint 0
     (sample_world\<lparr>replies := (\<lambda>n. Answer [''Code has already been taken''])\<rparr>)))) = 5 \<and>
   fst (mint 0 (sample_world\<lparr>replies := (\<lambda>n. Failure ''HTTP 500'')\<rparr>)) = Inl (Error ''HTTP 500'') \<and>
   creations (calls (snd (mint 0 (sample_world\<lparr>replies := (\<lambda>n. Failure ''HTTP 500'')\<rparr>)))) = 1 \<and>
   fst (mint 0 (sample_world\<lparr>replies :=
      (\<lambda>n. if n < 2 then Answer [''Code has already been taken''] else Answer [])\<rparr>)) =
     Inr ''WELCOME-051627''"
proof -
  let ?W = "sample_world\<lparr>replies :=
      (\<lambda>n. if n < 2 then Answer [''Code has already been taken''] else Answer [])\<rparr>"
  have ok: "creation_error (Answer []) = None" by code_simp
  have hx: "toUpperCase (hex_encode [261, 278, 295 :: byte]) = ''051627''" by code_simp
  have c: "collides (Answer [''Code has already been taken''])"
    and e: "creation_error (Failure ''HTTP 500'') = Some (Error ''HTTP 500'')"
    and n: "\<not> already_taken (Error ''HTTP 500'')"
    by code_simp+
  have z: "creations (calls (sample_world\<lparr>replies := r\<rparr>)) = 0" for r
    by (simp add: sample_world_def creations_def)
  have a5: "\<forall>i<5. collides (replies (sample_world\<lparr>replies := (\<lambda>n. Answer [''Code has already been taken''])\<rparr>)
      (served (sample_world\<lparr>replies := (\<lambda>n. Answer [''Code has already been taken''])\<rparr>) + i))"
    by (simp add: c)
  have h0: "0 < (5::nat) \<and>
      (\<forall>i<0. collides (replies (sample_world\<lparr>replies := (\<lambda>n. Failure ''HTTP 500'')\<rparr>)
         (served (sample_world\<lparr>replies := (\<lambda>n. Failure ''HTTP 500'')\<rparr>) + i))) \<and>
      creation_error (replies (sample_world\<lparr>replies := (\<lambda>n. Failure ''HTTP 500'')\<rparr>)
         (served (sample_world\<lparr>replies := (\<lambda>n. Failure ''HTTP 500'')\<rparr>) + 0)) =
        Some (Error ''HTTP 500'') \<and>
      \<not> already_taken (Error ''HTTP 500'')"
    by (simp add: e n del: already_taken.simps)
  have h2: "2 < (5::nat) \<and> (\<forall>i<2. collides (replies ?W (served ?W + i))) \<and>
      creation_error (replies ?W (served ?W + 2)) = None"
    by (simp add: c ok sample_world_def)
  note r1 = mint_retries [of _ 0 "[]", THEN conjunct2, THEN conjunct2, THEN conjunct2, THEN mp, OF a5]
  note r2 = mint_retries [of _ 0 "[]", THEN conjunct2, THEN conjunct1, rule_format, OF h0]
  note r3 = mint_retries [of _ 0 "[]", THEN conjunct2, THEN conjunct2, THEN conjunct1, rule_format, OF h2]
  from r3 hx have three: "fst (mint 0 ?W) = Inr ''WELCOME-051627''"
    by (simp add: sample_world_def)
  from r1 r2 z three show ?thesis by simp
qed

section \<open>The discounts created\<close>

lemma upper_hex_digit_all:
  "list_all (\<lambda>n. toUpperCase_char (hex_digit n) \<in> set ''0123456789ABCDEF'') [0..<16]"
  by code_simp

lemma upper_hex_digit: "n < 16 \<Longrightarrow> toUpperCase_char (hex_digit n) \<in> set ''0123456789ABCDEF''"
  using upper_hex_digit_all by (simp add: list_all_iff)

lemma upper_hex_encode:
  "list_all (\<lambda>x. x \<in> set ''0123456789ABCDEF'') (toUpperCase (hex_encode bs))"
proof (induction bs)
  case Nil
  then show ?case by (simp add: toUpperCase_def hex_encode_def)
next
  case (Cons b bs)
  have "toUpperCase (hex_encode (b # bs)) =
      toUpperCase_char (hex_digit (unat b div 16)) #
      toUpperCase_char (hex_digit (unat b mod 16)) # toUpperCase (hex_encode bs)"
    by (simp add: toUpperCase_def hex_encode_def)
  with Cons upper_hex_digit [OF byte_nibbles(1), of b] upper_hex_digit [OF byte_nibbles(2), of b]
  show ?case by (simp del: set_simps)
qed

lemma length_hex_encode: "length (hex_encode bs) = 2 * length bs"
  by (induction bs) (simp_all add: hex_encode_def)

lemma makeCode_shape: "welcome_shape (fst (makeCode w))"
  using upper_hex_encode [of "[entropy w (drawn w), entropy w (drawn w + 1), entropy w (drawn w + 2)]"]
  by (simp add: makeCode_effect welcome_shape_def toUpperCase_def length_hex_encode)

lemma mint_discounts:
  "\<exists>cs. discounts (snd (mint tries w)) = discounts w @ map (discount_for (clock w)) cs \<and>
        list_all welcome_shape cs"
proof (induction "5 - tries" arbitrary: tries w)
  case 0
  then have "discounts (snd (mint tries w)) = discounts w"
    by (simp add: mint_exhausted)
  then show ?case by (intro exI [of _ "[]"]) simp
next
  case (Suc n)
  then have lt: "tries < 5" and n: "n = 5 - Suc tries" by simp_all
  show ?case
  proof (cases "creation_error (replies w (served w))")
    case None
    then have "discounts (snd (mint tries w)) =
        discounts w @ map (discount_for (clock w)) [fst (makeCode w)]"
      using lt by (simp add: mint_step attempt_discounts)
    moreover have "list_all welcome_shape [fst (makeCode w)]"
      by (simp add: makeCode_shape)
    ultimately show ?thesis by blast
  next
    case (Some e)
    show ?thesis
    proof (cases "already_taken e")
      case False
      then have "discounts (snd (mint tries w)) = discounts w"
        using lt Some by (simp add: mint_step attempt_discounts)
      then show ?thesis by (intro exI [of _ "[]"]) simp
    next
      case True
      from Suc.hyps(1) [OF n, of "attempt w"] obtain cs where
        "discounts (snd (mint (Suc tries) (attempt w))) =
           discounts (attempt w) @ map (discount_for (clock (attempt w))) cs"
        and "list_all welcome_shape cs" by blast
      with lt Some True show ?thesis
        by (auto simp: mint_step attempt_discounts attempt_fields)
    qed
  qed
qed

lemma sendCodeEmail_keeps:
  "discounts (snd (sendCodeEmail to c w)) = discounts w"
  "customers (snd (sendCodeEmail to c w)) = customers w"
  by (simp_all add: sendCodeEmail_def next_reply_def split: outcome.splits)

lemma emailHasAnyOrders_keeps:
  "discounts (snd (emailHasAnyOrders e w)) = discounts w"
  "clock (snd (emailHasAnyOrders e w)) = clock w"
  "customers (snd (emailHasAnyOrders e w)) = customers w"
  by (simp_all add: emailHasAnyOrders_def await_def shopifyGQL_def next_reply_def
      split: outcome.splits)

lemma setCustomerCodeMetafield_keeps:
  "discounts (snd (setCustomerCodeMetafield cid c w)) = discounts w"
  by (simp add: setCustomerCodeMetafield_def await_def shopifyGQL_def next_reply_def
      split: outcome.splits)

lemma respond_keeps:
  "discounts (snd (respond out)) = discounts (snd out)"
  "customers (snd (respond out)) = customers (snd out)"
  "calls (snd (respond out)) = calls (snd out)"
  by (simp_all add: respond_def split: prod.splits sum.splits)

lemma lookup_keeps:
  "discounts (snd (getCustomerAndExistingCode e w)) = discounts w"
  "clock (snd (getCustomerAndExistingCode e w)) = clock w"
  by (auto simp: getCustomerAndExistingCode_def await_def shopifyGQL_def next_reply_def
      split: outcome.splits list.splits if_splits option.splits prod.splits)

lemma mint_and_send_discounts:
  "discounts (snd (mint_and_send cid e w)) = discounts (snd (mint 0 w))"
proof (cases "mint 0 w")
  case (Pair r w1)
  show ?thesis
  proof (cases r)
    case (Inl err)
    with Pair show ?thesis by (simp add: mint_and_send_def await_def)
  next
    case (Inr c)
    obtain r2 w2 where s: "setCustomerCodeMetafield cid c w1 = (r2, w2)"
      by (cases "setCustomerCodeMetafield cid c w1")
    then have d2: "discounts w2 = discounts w1"
      using setCustomerCodeMetafield_keeps [of cid c w1] by simp
    show ?thesis
    proof (cases r2)
      case (Inl err)
      with Pair Inr s d2 show ?thesis by (simp add: mint_and_send_def await_def)
    next
      case (Inr u)
      obtain r3 w3 where m: "sendCodeEmail e c w2 = (r3, w3)" by (cases "sendCodeEmail e c w2")
      then have "discounts w3 = discounts w2" using sendCodeEmail_keeps(1) [of e c w2] by simp
      with Pair \<open>r = Inr c\<close> s d2 Inr m show ?thesis
        by (cases r3) (simp_all add: mint_and_send_def await_def)
    qed
  qed
qed

lemma issue_discounts:
  "\<exists>cs. discounts (snd (issue e w)) = discounts w @ map (discount_for (clock w)) cs \<and>
        list_all welcome_shape cs"
proof -
  have none: "\<exists>cs. discounts w' = discounts w @ map (discount_for (clock w)) cs \<and>
        list_all welcome_shape cs" if "discounts w' = discounts w" for w'
    using that by (intro exI [of _ "[]"]) simp
  obtain r w1 where l: "getCustomerAndExistingCode e w = (r, w1)"
    by (cases "getCustomerAndExistingCode e w")
  then have k1: "discounts w1 = discounts w" "clock w1 = clock w"
    using lookup_keeps [of e w] by simp_all
  show ?thesis
  proof (cases r)
    case (Inl err)
    with l k1 show ?thesis by (intro none) (simp add: issue_def await_def)
  next
    case (Inr found)
    obtain cid existing where f: "found = (cid, existing)" by (cases found)
    show ?thesis
    proof (cases existing)
      case (Some c)
      have "discounts (snd (issue e w)) = discounts (snd (sendCodeEmail e c w1))"
        using l Inr f Some by (simp add: issue_def await_def split: prod.splits sum.splits)
      then show ?thesis using k1 by (intro none) (simp add: sendCodeEmail_keeps)
    next
      case None
      obtain r2 w2 where o: "emailHasAnyOrders e w1 = (r2, w2)"
        by (cases "emailHasAnyOrders e w1")
      then have k2: "discounts w2 = discounts w" "clock w2 = clock w"
        using emailHasAnyOrders_keeps [of e w1] k1 by simp_all
      show ?thesis
      proof (cases r2)
        case (Inl err)
        with l Inr f None o k2 show ?thesis by (intro none) (simp add: issue_def await_def)
      next
        case has: (Inr has)
        show ?thesis
        proof (cases has)
          case True
          with l Inr f None o k2 has show ?thesis
            by (intro none) (simp add: issue_def await_def)
        next
          case False
          with l Inr f None o has have "discounts (snd (issue e w)) = discounts (snd (mint 0 w2))"
            by (simp add: issue_def await_def mint_and_send_discounts)
          with mint_discounts [of 0 w2] k2 show ?thesis by simp
        qed
      qed
    qed
  qed
qed


text \<open>
  C8. The candidate that \<^verbatim>\<open>makeCode\<close> produces is \<^verbatim>\<open>WELCOME-\<close> followed by the
  upper-cased hexadecimal text of three random bytes, which is six upper-case
  hexadecimal digits. \<^verbatim>\<open>createOneTimeTenPercent\<close> asks the platform for one discount:
  a percentage of one tenth, usage limit 1, once per customer, all customers, all
  items, starting at the time of the call, with no end, under the code it is given; when
  the platform accepts, that discount is what the store gains. For the handler: the
  discounts that any run adds are of this kind under codes of the candidate's shape; and
  a run that reaches the minting loop (a verified, valid request, no stored code, no
  order found) and whose first creation is accepted adds exactly one discount, so
  configured, under the candidate drawn from the next three random bytes.
\<close>

theorem welcome_discounts:
  "fst (makeCode w) =
     ''WELCOME-'' @ toUpperCase (hex_encode
        [entropy w (drawn w), entropy w (drawn w + 1), entropy w (drawn w + 2)]) \<and>
   welcome_shape (fst (makeCode w)) \<and>
   calls (snd (createOneTimeTenPercent c w)) =
     calls w @ [Gql (DiscountCodeBasicCreate
        \<lparr>title = ''Welcome 10% - First Purchase'', startsAt = clock w, endsAt = None,
          usageLimit = 1, appliesOncePerCustomer = True, customerSelection_all = True,
          percentage = 1 / 10, items_all = True, code = c\<rparr>)] \<and>
   (replies w (served w) = Answer [] \<longrightarrow>
      discounts (snd (createOneTimeTenPercent c w)) =
        discounts w @
         [\<lparr>title = ''Welcome 10% - First Purchase'', startsAt = clock w, endsAt = None,
          usageLimit = 1, appliesOncePerCustomer = True, customerSelection_all = True,
          percentage = 1 / 10, items_all = True, code = c\<rparr>]) \<and>
   (\<exists>ds. discounts (snd (handler rt req w)) = discounts w @ ds \<and>
      list_all (\<lambda>d. percentage d = 1 / 10 \<and> usageLimit d = 1 \<and> appliesOncePerCustomer d \<and>
                    customerSelection_all d \<and> items_all d \<and>
                    startsAt d = clock w \<and> endsAt d = None \<and> welcome_shape (code d)) ds) \<and>
   (http_method req = ''POST'' \<and> verifyProxySignature rt req \<and>
    valid_email (extract_email (body_email req)) \<and>
    getCustomerAndExistingCode (extract_email (body_email req)) w = (Inr (cid, None), w1) \<and>
    replies w1 (served w1) = Answer a1 \<and>
    \<not> list_ex (blocking_order (extract_email (body_email req))) (orders w) \<and>
    replies w1 (Suc (served w1)) = Answer [] \<longrightarrow>
      discounts (snd (handler rt req w)) =
        discounts w @
         [\<lparr>title = ''Welcome 10% - First Purchase'', startsAt = clock w, endsAt = None,
          usageLimit = 1, appliesOncePerCustomer = True, customerSelection_all = True,
          percentage = 1 / 10, items_all = True, code = ''WELCOME-'' @ toUpperCase (hex_encode
             [entropy w (drawn w), entropy w (drawn w + 1), entropy w (drawn w + 2)])\<rparr>])"
proof (intro conjI impI)
  show "fst (makeCode w) =
     ''WELCOME-'' @ toUpperCase (hex_encode
        [entropy w (drawn w), entropy w (drawn w + 1), entropy w (drawn w + 2)])"
    by (simp add: makeCode_effect)
  show "welcome_shape (fst (makeCode w))" by (rule makeCode_shape)
  show "calls (snd (createOneTimeTenPercent c w)) =
     calls w @ [Gql (DiscountCodeBasicCreate
        \<lparr>title = ''Welcome 10% - First Purchase'', startsAt = clock w, endsAt = None,
          usageLimit = 1, appliesOncePerCustomer = True, customerSelection_all = True,
          percentage = 1 / 10, items_all = True, code = c\<rparr>)]"
    by (simp add: createOneTimeTenPercent_effect discount_for_def split: option.splits)
  show "discounts (snd (createOneTimeTenPercent c w)) =
        discounts w @
         [\<lparr>title = ''Welcome 10% - First Purchase'', startsAt = clock w, endsAt = None,
          usageLimit = 1, appliesOncePerCustomer = True, customerSelection_all = True,
          percentage = 1 / 10, items_all = True, code = c\<rparr>]"
    if "replies w (served w) = Answer []"
    using that by (simp add: createOneTimeTenPercent_effect creation_error_def discount_for_def)
  have terms: "list_all (\<lambda>d. percentage d = 1 / 10 \<and> usageLimit d = 1 \<and> appliesOncePerCustomer d \<and>
                    customerSelection_all d \<and> items_all d \<and>
                    startsAt d = clock w \<and> endsAt d = None \<and> welcome_shape (code d))
      (map (discount_for (clock w)) cs)" if "list_all welcome_shape cs" for cs
    using that by (induction cs) (simp_all add: discount_for_def)
  have "\<exists>cs. discounts (snd (handler rt req w)) = discounts w @ map (discount_for (clock w)) cs \<and>
        list_all welcome_shape cs"
  proof (cases "http_method req = ''POST'' \<and> verifyProxySignature rt req \<and>
      valid_email (extract_email (body_email req))")
    case True
    then have "handler rt req w = respond (issue (extract_email (body_email req)) w)"
      by (simp add: handler_issue)
    then show ?thesis
      using issue_discounts [of "extract_email (body_email req)" w] by (simp add: respond_keeps)
  next
    case False
    then have "discounts (snd (handler rt req w)) = discounts w"
      by (auto simp: handler_def)
    then show ?thesis by (intro exI [of _ "[]"]) simp
  qed
  with terms show "\<exists>ds. discounts (snd (handler rt req w)) = discounts w @ ds \<and>
      list_all (\<lambda>d. percentage d = 1 / 10 \<and> usageLimit d = 1 \<and> appliesOncePerCustomer d \<and>
                    customerSelection_all d \<and> items_all d \<and>
                    startsAt d = clock w \<and> endsAt d = None \<and> welcome_shape (code d)) ds"
    by blast
next
  let ?e = "extract_email (body_email req)"
  assume a: "http_method req = ''POST'' \<and> verifyProxySignature rt req \<and>
    valid_email ?e \<and>
    getCustomerAndExistingCode ?e w = (Inr (cid, None), w1) \<and>
    replies w1 (served w1) = Answer a1 \<and>
    \<not> list_ex (blocking_order ?e) (orders w) \<and>
    replies w1 (Suc (served w1)) = Answer []"
  let ?w2 = "w1\<lparr>calls := calls w1 @ [Gql (Orders_first (orders_search ?e))],
      served := Suc (served w1)\<rparr>"
  from a have look: "getCustomerAndExistingCode ?e w = (Inr (cid, None), w1)" by simp
  note fp = lookup_footprint [OF look]
  from a have h: "handler rt req w = respond (issue ?e w)" by (simp add: handler_issue)
  from a have ans: "replies w1 (served w1) = Answer a1" by simp
  have free: "\<not> list_ex (blocking_order ?e) (orders w1)" using a fp by simp
  have "issue ?e w = mint_and_send cid ?e ?w2"
    using look emailHasAnyOrders_Answer [OF ans, of ?e] free
    by (simp add: issue_def await_def)
  with h have d: "discounts (snd (handler rt req w)) = discounts (snd (mint 0 ?w2))"
    by (simp add: respond_keeps mint_and_send_discounts)
  have none: "creation_error (replies ?w2 (served ?w2)) = None"
    using a by (simp add: creation_error_def)
  have "mint 0 ?w2 = (Inr (fst (makeCode ?w2)), attempt ?w2)"
    using mint_step [of 0 ?w2] none by simp
  then have "discounts (snd (mint 0 ?w2)) =
      discounts ?w2 @ [discount_for (clock ?w2) (fst (makeCode ?w2))]"
    using none by (simp add: attempt_discounts)
  with d fp show "discounts (snd (handler rt req w)) =
        discounts w @
         [\<lparr>title = ''Welcome 10% - First Purchase'', startsAt = clock w, endsAt = None,
          usageLimit = 1, appliesOncePerCustomer = True, customerSelection_all = True,
          percentage = 1 / 10, items_all = True, code = ''WELCOME-'' @ toUpperCase (hex_encode
             [entropy w (drawn w), entropy w (drawn w + 1), entropy w (drawn w + 2)])\<rparr>]"
    by (simp add: makeCode_effect discount_for_def)
qed

theorem welcome_discounts_witness:
  "fst (makeCode sample_world) = ''WELCOME-9FB0C1'' \<and> welcome_shape ''WELCOME-9FB0C1'' \<and>
   discounts (snd (handler sample_runtime (sample_request ''eve@shop.example'') sample_world)) =
     [\<lparr>title = ''Welcome 10% - First Purchase'', startsAt = 1000, endsAt = None,
       usageLimit = 1, appliesOncePerCustomer = True, customerSelection_all = True,
       percentage = 1 / 10, items_all = True, code = ''WELCOME-9FB0C1''\<rparr>]"
proof -
  let ?e = "''eve@shop.example''"
  let ?w1 = "sample_world\<lparr>calls := calls sample_world @
        [Gql (Customers_first (Field_is ''email'' ?e))],
      served := Suc (served sample_world)\<rparr>"
  have ev: "''WELCOME-'' @ toUpperCase (hex_encode
        [entropy sample_world (drawn sample_world), entropy sample_world (drawn sample_world + 1),
         entropy sample_world (drawn sample_world + 2)]) = ''WELCOME-9FB0C1''"
    by code_simp
  have p: "http_method (sample_request ?e) = ''POST''" by (simp add: sample_request_def)
  have ex: "extract_email (body_email (sample_request ?e)) = ?e" and v: "valid_email ?e"
    by code_simp+
  have r0: "replies sample_world (served sample_world) = Answer []"
    by (simp add: sample_world_def)
  have f: "find (\<lambda>c. customer_email c = ?e) (customers sample_world) =
      Some \<lparr>customer_id = 9, customer_email = ?e, welcome_code = Some []\<rparr>"
    by (simp add: sample_world_def)
  have l: "getCustomerAndExistingCode ?e sample_world = (Inr (9, None), ?w1)"
    using lookup_found [OF r0 f] by (simp add: truthy_def)
  have rest: "replies ?w1 (served ?w1) = Answer [] \<and>
      \<not> list_ex (blocking_order ?e) (orders sample_world) \<and>
      replies ?w1 (Suc (served ?w1)) = Answer []"
    by (simp add: sample_world_def blocking_order_def)
  have facts: "discounts sample_world = []" "clock sample_world = 1000"
    by (simp_all add: sample_world_def)
  note t = welcome_discounts [of sample_world _ sample_runtime "sample_request ?e" 9 ?w1 "[]"]
  from t ev have c: "fst (makeCode sample_world) = ''WELCOME-9FB0C1''" by simp
  from t have "welcome_shape (fst (makeCode sample_world))" by blast
  with c have s: "welcome_shape ''WELCOME-9FB0C1''" by simp
  have hyp: "http_method (sample_request ?e) = ''POST'' \<and>
      verifyProxySignature sample_runtime (sample_request ?e) \<and>
      valid_email (extract_email (body_email (sample_request ?e))) \<and>
      getCustomerAndExistingCode (extract_email (body_email (sample_request ?e))) sample_world =
        (Inr (9, None), ?w1) \<and>
      replies ?w1 (served ?w1) = Answer [] \<and>
      \<not> list_ex (blocking_order (extract_email (body_email (sample_request ?e))))
          (orders sample_world) \<and>
      replies ?w1 (Suc (served ?w1)) = Answer []"
    using p sample_request_verified [of ?e] v l rest unfolding ex by blast
  note d = t [THEN conjunct2, THEN conjunct2, THEN conjunct2, THEN conjunct2, THEN conjunct2,
      THEN mp, OF hyp]
  from d ev facts have "discounts (snd (handler sample_runtime (sample_request ?e) sample_world)) =
     [\<lparr>title = ''Welcome 10% - First Purchase'', startsAt = 1000, endsAt = None,
       usageLimit = 1, appliesOncePerCustomer = True, customerSelection_all = True,
       percentage = 1 / 10, items_all = True, code = ''WELCOME-9FB0C1''\<rparr>]"
    by simp
  with c s show ?thesis by simp
qed

section \<open>An empty stored code\<close>

lemma platform_calls: "calls (snd (platform rq errs w)) = calls w"
  by (cases rq) simp_all

lemma shopifyGQL_calls: "calls (snd (shopifyGQL rq w)) = calls w @ [Gql rq]"
proof (cases "replies w (served w)")
  case (Answer errs)
  obtain d w2 where p:
    "platform rq errs (w\<lparr>calls := calls w @ [Gql rq], served := Suc (served w)\<rparr>) = (d, w2)"
    by (cases "platform rq errs (w\<lparr>calls := calls w @ [Gql rq], served := Suc (served w)\<rparr>)")
  with platform_calls [of rq errs "w\<lparr>calls := calls w @ [Gql rq], served := Suc (served w)\<rparr>"]
  have "calls w2 = calls w @ [Gql rq]" by simp
  with Answer p show ?thesis by (simp add: shopifyGQL_Answer)
next
  case (Failure m)
  then show ?thesis by (simp add: shopifyGQL_Failure)
qed

lemma sendCodeEmail_calls: "calls (snd (sendCodeEmail to c w)) = calls w @ [SendMail to c]"
  by (simp add: sendCodeEmail_def next_reply_def split: outcome.splits)

lemma setCustomerCodeMetafield_calls:
  "calls (snd (setCustomerCodeMetafield cid c w)) =
     calls w @ [Gql (MetafieldsSet
       [\<lparr>mf_ownerId = cid, mf_namespace = ''welcome'', mf_key = ''code'',
         mf_type = ''single_line_text_field'', mf_value = c\<rparr>])]"
  using shopifyGQL_calls [of "MetafieldsSet
       [\<lparr>mf_ownerId = cid, mf_namespace = ''welcome'', mf_key = ''code'',
         mf_type = ''single_line_text_field'', mf_value = c\<rparr>]" w]
  by (auto simp: setCustomerCodeMetafield_def await_def split: prod.splits sum.splits gql_data.splits)

lemma mint_calls: "\<exists>rest. calls (snd (mint tries w)) = calls w @ rest"
proof (induction "5 - tries" arbitrary: tries w)
  case 0
  then show ?case by (simp add: mint_exhausted)
next
  case (Suc n)
  then have lt: "tries < 5" and n: "n = 5 - Suc tries" by simp_all
  have a: "\<exists>rest. calls (attempt w) = calls w @ rest"
    by (simp add: attempt_def makeCode_effect createOneTimeTenPercent_effect split: option.splits)
  from Suc.hyps(1) [OF n, of "attempt w"] a
  have "\<exists>rest. calls (snd (mint (Suc tries) (attempt w))) = calls w @ rest"
    by (metis append.assoc)
  with a show ?case
    by (auto simp: mint_step [OF lt] split: option.splits)
qed

lemma mint_returns: "fst (mint tries w) = Inr c \<Longrightarrow> welcome_shape c"
proof (induction "5 - tries" arbitrary: tries w)
  case 0
  then show ?case by (simp add: mint_exhausted)
next
  case (Suc n)
  then have lt: "tries < 5" and n: "n = 5 - Suc tries" by simp_all
  from Suc.prems Suc.hyps(1) [OF n, of "attempt w"] show ?case
    by (auto simp: mint_step [OF lt] makeCode_shape split: option.splits if_splits)
qed

lemma mint_and_send_calls: "\<exists>rest. calls (snd (mint_and_send cid e w)) = calls w @ rest"
proof -
  obtain r w1 where m: "mint 0 w = (r, w1)" by (cases "mint 0 w")
  with mint_calls [of 0 w] obtain r1 where c1: "calls w1 = calls w @ r1" by auto
  show ?thesis
  proof (cases r)
    case (Inl err)
    with m c1 show ?thesis by (simp add: mint_and_send_def await_def)
  next
    case (Inr c)
    obtain r2 w2 where s: "setCustomerCodeMetafield cid c w1 = (r2, w2)"
      by (cases "setCustomerCodeMetafield cid c w1")
    with setCustomerCodeMetafield_calls [of cid c w1] c1
    obtain r3 where c2: "calls w2 = calls w @ r3" by auto
    show ?thesis
    proof (cases r2)
      case (Inl err)
      with m Inr s c2 show ?thesis by (simp add: mint_and_send_def await_def)
    next
      case u: (Inr u)
      obtain r4 w3 where t: "sendCodeEmail e c w2 = (r4, w3)" by (cases "sendCodeEmail e c w2")
      with sendCodeEmail_calls [of e c w2] c2 have "calls w3 = calls w @ r3 @ [SendMail e c]"
        by simp
      with m Inr s u t show ?thesis
        by (cases r4) (simp_all add: mint_and_send_def await_def)
    qed
  qed
qed

lemma setCustomerCodeMetafield_Answer:
  "replies w (served w) = Answer [] \<Longrightarrow>
   setCustomerCodeMetafield cid c w =
     (Inr (),
      w\<lparr>calls := calls w @ [Gql (MetafieldsSet
           [\<lparr>mf_ownerId = cid, mf_namespace = ''welcome'', mf_key = ''code'',
             mf_type = ''single_line_text_field'', mf_value = c\<rparr>])],
        served := Suc (served w),
        customers := map (\<lambda>x. if customer_id x = cid then x\<lparr>welcome_code := Some c\<rparr> else x)
          (customers w)\<rparr>)"
  by (simp add: setCustomerCodeMetafield_def await_def shopifyGQL_def next_reply_def
      set_metafield_def)


text \<open>
  C9. The claim: when the customer's metafield is the empty string, the lookup reports
  no code, the workflow does not resend but goes on to the order check and, if
  eligible, mints a fresh code and overwrites the empty one. Minting can fail: Eve has
  the empty metafield and no order; when the platform fails the creation of the
  discount, the handler answers 500 and her metafield is still empty.
\<close>

theorem empty_code_counterexample:
  "http_method (sample_request ''eve@shop.example'') = ''POST'' \<and>
   verifyProxySignature sample_runtime (sample_request ''eve@shop.example'') \<and>
   valid_email (extract_email (body_email (sample_request ''eve@shop.example''))) \<and>
   map welcome_code (filter (\<lambda>c. customer_email c = ''eve@shop.example'')
     (customers (sample_world\<lparr>replies := (\<lambda>n. if n = 2 then Failure ''HTTP 502'' else Answer [])\<rparr>))) =
     [Some []] \<and>
   map order_id (filter (\<lambda>ord. order_email ord = ''eve@shop.example'')
     (orders (sample_world\<lparr>replies := (\<lambda>n. if n = 2 then Failure ''HTTP 502'' else Answer [])\<rparr>))) = [] \<and>
   (case handler sample_runtime (sample_request ''eve@shop.example'')
       (sample_world\<lparr>replies := (\<lambda>n. if n = 2 then Failure ''HTTP 502'' else Answer [])\<rparr>) of
      (r, w) \<Rightarrow>
        status r = 500 \<and>
        map welcome_code (customers w) = [Some ''WELCOME-ABC123'', None, Some [], None] \<and>
        length (discounts w) = 0)"
  by code_simp

text \<open>
  C9, amended. For a verified POST with a valid extracted email that the platform
  resolves (the lookup answered) to a customer whose metafield is the empty string: the
  lookup returns no existing code; the handler's next call is the order query, not a
  mail; and when that query is answered and finds no order of the searched statuses,
  the handler runs the minting loop. When the loop returns a code and the metafield
  write is answered without user errors, that code has the shape of a fresh welcome
  code, it replaces the empty value on that customer, and the calls that follow the
  loop are the metafield write and the mail with that code.
\<close>

theorem empty_code_reissued:
  assumes "http_method req = ''POST''" and "verifyProxySignature rt req"
    and "extract_email (body_email req) = e" and "valid_email e"
    and "find (\<lambda>c. customer_email c = e) (customers w) = Some c"
    and "welcome_code c = Some []"
    and "replies w (served w) = Answer a0"
  shows "getCustomerAndExistingCode e w =
       (Inr (customer_id c, None),
        w\<lparr>calls := calls w @ [Gql (Customers_first (Field_is ''email'' e))],
          served := Suc (served w)\<rparr>) \<and>
     (\<exists>rest. calls (snd (handler rt req w)) =
        calls w @ [Gql (Customers_first (Field_is ''email'' e)),
                   Gql (Orders_first (orders_search e))] @ rest) \<and>
     (\<forall>a1. replies w (Suc (served w)) = Answer a1 \<and> \<not> list_ex (blocking_order e) (orders w) \<longrightarrow>
        handler rt req w =
          respond (mint_and_send (customer_id c) e
            (w\<lparr>calls := calls w @ [Gql (Customers_first (Field_is ''email'' e)),
                                   Gql (Orders_first (orders_search e))],
               served := Suc (Suc (served w))\<rparr>)) \<and>
        (\<forall>fresh wm.
           mint 0 (w\<lparr>calls := calls w @ [Gql (Customers_first (Field_is ''email'' e)),
                                        Gql (Orders_first (orders_search e))],
                    served := Suc (Suc (served w))\<rparr>) = (Inr fresh, wm) \<and>
           replies wm (served wm) = Answer [] \<longrightarrow>
           welcome_shape fresh \<and>
           customers (snd (handler rt req w)) =
             map (\<lambda>x. if customer_id x = customer_id c then x\<lparr>welcome_code := Some fresh\<rparr> else x)
               (customers w) \<and>
           calls (snd (handler rt req w)) =
             calls wm @
               [Gql (MetafieldsSet
                  [\<lparr>mf_ownerId = customer_id c, mf_namespace = ''welcome'', mf_key = ''code'',
                    mf_type = ''single_line_text_field'', mf_value = fresh\<rparr>]),
                SendMail e fresh]))"
proof -
  let ?L = "Gql (Customers_first (Field_is ''email'' e))"
  let ?O = "Gql (Orders_first (orders_search e))"
  let ?w1 = "w\<lparr>calls := calls w @ [?L], served := Suc (served w)\<rparr>"
  let ?wo = "w\<lparr>calls := calls w @ [?L, ?O], served := Suc (Suc (served w))\<rparr>"
  have look: "getCustomerAndExistingCode e w = (Inr (customer_id c, None), ?w1)"
    using lookup_found [OF assms(7) assms(5)] assms(6) by (simp add: truthy_def)
  have h: "handler rt req w = respond (issue e w)"
    using handler_issue [OF assms(1,2)] assms(3,4) by simp
  have iss: "issue e w =
      await (emailHasAnyOrders e)
        (\<lambda>has w'. if has then (Inr (json 409 False ''Coupon codes are for first purchase only.''), w')
                  else mint_and_send (customer_id c) e w') ?w1"
    using look by (simp add: issue_def await_def)
  have eligible: "handler rt req w = respond (mint_and_send (customer_id c) e ?wo)"
    if "replies w (Suc (served w)) = Answer a1" "\<not> list_ex (blocking_order e) (orders w)" for a1
  proof -
    from that(1) have "replies ?w1 (served ?w1) = Answer a1" by simp
    from emailHasAnyOrders_Answer [OF this, of e] that(2) show ?thesis
      by (simp add: h iss await_def)
  qed
  have second: "\<exists>rest. calls (snd (handler rt req w)) = calls w @ [?L, ?O] @ rest"
  proof (cases "replies w (Suc (served w))")
    case (Failure m)
    then have "replies ?w1 (served ?w1) = Failure m" by simp
    from emailHasAnyOrders_Failure [OF this, of e] show ?thesis
      by (simp add: h iss await_def respond_def)
  next
    case (Answer a1)
    then have a: "replies ?w1 (served ?w1) = Answer a1" by simp
    show ?thesis
    proof (cases "list_ex (blocking_order e) (orders w)")
      case True
      with emailHasAnyOrders_Answer [OF a, of e] show ?thesis
        by (simp add: h iss await_def respond_def)
    next
      case False
      from mint_and_send_calls [of "customer_id c" e ?wo] obtain rest where
        "calls (snd (mint_and_send (customer_id c) e ?wo)) = calls ?wo @ rest" by blast
      with eligible [OF Answer False] show ?thesis by (simp add: respond_keeps)
    qed
  qed
  have written: "welcome_shape fresh \<and>
      customers (snd (handler rt req w)) =
        map (\<lambda>x. if customer_id x = customer_id c then x\<lparr>welcome_code := Some fresh\<rparr> else x)
          (customers w) \<and>
      calls (snd (handler rt req w)) =
        calls wm @
          [Gql (MetafieldsSet
             [\<lparr>mf_ownerId = customer_id c, mf_namespace = ''welcome'', mf_key = ''code'',
               mf_type = ''single_line_text_field'', mf_value = fresh\<rparr>]),
           SendMail e fresh]"
    if a1: "replies w (Suc (served w)) = Answer a1" and el: "\<not> list_ex (blocking_order e) (orders w)"
      and mi: "mint 0 ?wo = (Inr fresh, wm)" and wr: "replies wm (served wm) = Answer []"
    for a1 fresh wm
  proof -
    let ?M = "Gql (MetafieldsSet
             [\<lparr>mf_ownerId = customer_id c, mf_namespace = ''welcome'', mf_key = ''code'',
               mf_type = ''single_line_text_field'', mf_value = fresh\<rparr>])"
    let ?ws = "wm\<lparr>calls := calls wm @ [?M], served := Suc (served wm),
        customers := map (\<lambda>x. if customer_id x = customer_id c
           then x\<lparr>welcome_code := Some fresh\<rparr> else x) (customers wm)\<rparr>"
    have shape: "welcome_shape fresh" using mint_returns [of 0 ?wo fresh] mi by simp
    have cm: "customers wm = customers w" using mint_footprint [of 0 ?wo] mi by simp
    obtain r4 w3 where t: "sendCodeEmail e fresh ?ws = (r4, w3)"
      by (cases "sendCodeEmail e fresh ?ws")
    from t sendCodeEmail_keeps(2) [of e fresh ?ws] sendCodeEmail_calls [of e fresh ?ws]
    have w3: "customers w3 = customers ?ws" "calls w3 = calls ?ws @ [SendMail e fresh]"
      by simp_all
    have "mint_and_send (customer_id c) e ?wo =
        await (sendCodeEmail e fresh)
          (\<lambda>_ w. (Inr (json 200 True ''Your 10% code has been emailed.''), w)) ?ws"
      using mi setCustomerCodeMetafield_Answer [OF wr, of "customer_id c" fresh]
      by (simp add: mint_and_send_def await_def)
    then have "snd (mint_and_send (customer_id c) e ?wo) = w3"
      using t by (cases r4) (simp_all add: await_def)
    then have "customers (snd (respond (mint_and_send (customer_id c) e ?wo))) = customers w3 \<and>
        calls (snd (respond (mint_and_send (customer_id c) e ?wo))) = calls w3"
      by (simp add: respond_keeps)
    with eligible [OF a1 el] w3 cm shape show ?thesis by simp
  qed
  from look second eligible written show ?thesis by blast
qed


theorem empty_code_reissued_witness:
  "fst (getCustomerAndExistingCode ''eve@shop.example'' sample_world) = Inr (9, None) \<and>
   map welcome_code (customers (snd (handler sample_runtime (sample_request ''eve@shop.example'')
     sample_world))) = [Some ''WELCOME-ABC123'', None, Some ''WELCOME-9FB0C1'', None]"
proof -
  let ?e = "''eve@shop.example''"
  let ?c = "\<lparr>customer_id = 9, customer_email = ?e, welcome_code = Some []\<rparr>"
  let ?wo = "sample_world\<lparr>calls := calls sample_world @
        [Gql (Customers_first (Field_is ''email'' ?e)), Gql (Orders_first (orders_search ?e))],
      served := Suc (Suc (served sample_world))\<rparr>"
  have p: "http_method (sample_request ?e) = ''POST''" by (simp add: sample_request_def)
  have ex: "extract_email (body_email (sample_request ?e)) = ?e" and v: "valid_email ?e"
    by code_simp+
  have f: "find (\<lambda>c. customer_email c = ?e) (customers sample_world) = Some ?c"
    by (simp add: sample_world_def)
  have m: "welcome_code ?c = Some []" by simp
  have r0: "replies sample_world (served sample_world) = Answer []"
    by (simp add: sample_world_def)
  have el: "replies sample_world (Suc (served sample_world)) = Answer [] \<and>
      \<not> list_ex (blocking_order ?e) (orders sample_world)"
    by (simp add: sample_world_def blocking_order_def)
  have hx: "toUpperCase (hex_encode [159, 176, 193 :: byte]) = ''9FB0C1''" by code_simp
  have code: "fst (makeCode ?wo) = ''WELCOME-9FB0C1''"
    using hx by (simp add: makeCode_effect sample_world_def)
  have mi: "mint 0 ?wo = (Inr ''WELCOME-9FB0C1'', attempt ?wo) \<and>
      replies (attempt ?wo) (served (attempt ?wo)) = Answer []"
    using mint_step [of 0 ?wo] code
    by (simp add: creation_error_def attempt_fields sample_world_def)
  note t = empty_code_reissued [OF p sample_request_verified ex v f m r0]
  from t have one: "fst (getCustomerAndExistingCode ?e sample_world) = Inr (9, None)"
    by simp
  note w = t [THEN conjunct2, THEN conjunct2, rule_format, OF el, THEN conjunct2, rule_format, OF mi]
  from w have "customers (snd (handler sample_runtime (sample_request ?e) sample_world)) =
      map (\<lambda>x. if customer_id x = 9 then x\<lparr>welcome_code := Some ''WELCOME-9FB0C1''\<rparr> else x)
        (customers sample_world)"
    by simp
  then have "map welcome_code (customers (snd (handler sample_runtime (sample_request ?e)
      sample_world))) = [Some ''WELCOME-ABC123'', None, Some ''WELCOME-9FB0C1'', None]"
    by (simp add: sample_world_def)
  with one show ?thesis by simp
qed

end
